theory Spec2Isabelle
  imports Complex_Main
begin

section \<open>Values of the evaluation harness\<close>

text \<open>
  The scoring library of the repository is \<^verbatim>\<open>eval/evaluation_utils.py\<close>; the driver
  that combines its scores is \<^verbatim>\<open>test_full_evaluation_suite\<close> in
  \<^verbatim>\<open>eval/test_recommendations.py\<close>.

  A Python \<^verbatim>\<open>str\<close> is a sequence of Unicode code points, so a text is a list of
  natural numbers (the emoji ranges of the post scorer lie beyond one byte). A Python
  \<^verbatim>\<open>float\<close> is a real number. The functions of the first sections give the scores
  in exact arithmetic, the mathematical value of the expression the source computes; the
  section on the arithmetic of the runtime gives them once more with the rounding of
  IEEE 754 doubles, which decides the comparison of the overall score with its threshold.
\<close>

type_synonym codepoint = nat
type_synonym str = "codepoint list"

definition ascii :: "string \<Rightarrow> str" where
  "ascii s = map of_char s"

datatype error =
    ZeroDivisionError
  | KeyError string
  | ValueError
  | ReError

text \<open>Python's true division \<^verbatim>\<open>a / b\<close>: it raises on a zero divisor.\<close>

definition truediv :: "real \<Rightarrow> real \<Rightarrow> error + real" where
  "truediv a b = (if b = 0 then Inl ZeroDivisionError else Inr (a / b))"

subsection \<open>What the Python runtime and its libraries supply\<close>

text \<open>
  The source calls \<^verbatim>\<open>str.lower\<close>, the regular-expression class \<^verbatim>\<open>\w\<close>,
  \<^verbatim>\<open>re.search(pattern, text, re.IGNORECASE)\<close> and scikit-learn's TF-IDF
  vectorizer with cosine similarity. None of them is code of the repository, so the
  functions below take them as a parameter:
  \<^item> \<open>str_lower\<close> is \<^verbatim>\<open>str.lower\<close>;
  \<^item> \<open>word_char\<close> tells whether a code point is matched by \<^verbatim>\<open>\w\<close>;
  \<^item> \<open>search p t\<close> is \<open>Some True\<close> when \<^verbatim>\<open>re.search(p, t, re.IGNORECASE)\<close>
    finds a match, \<open>Some False\<close> when it returns \<^verbatim>\<open>None\<close>, and \<open>None\<close> when
    \<^verbatim>\<open>p\<close> does not compile (\<^verbatim>\<open>re.error\<close>);
  \<^item> \<open>tfidf_cosine a b\<close> is the cosine similarity of the two TF-IDF rows, or
    \<open>None\<close> when vectorization raises (an empty vocabulary).
\<close>

record pylib =
  str_lower :: "str \<Rightarrow> str"
  word_char :: "codepoint \<Rightarrow> bool"
  search :: "str \<Rightarrow> str \<Rightarrow> bool option"
  tfidf_cosine :: "str \<Rightarrow> str \<Rightarrow> real option"

section \<open>The scoring library\<close>

subsection \<open>\<^verbatim>\<open>regex_match_score\<close>\<close>

text \<open>
  \<^verbatim>\<open>
  def regex_match_score(text, patterns):
      score = 0
      for pattern in patterns:
          if re.search(pattern, text, re.IGNORECASE):
              score += 1
      return score / max(len(patterns), 1)
  \<close>
  The loop carries \<open>score\<close>; a pattern that does not compile ends it with the error.
\<close>

fun count_matches :: "(str \<Rightarrow> str \<Rightarrow> bool option) \<Rightarrow> str \<Rightarrow> str list \<Rightarrow> nat \<Rightarrow> error + nat" where
  "count_matches srch text [] score = Inr score"
| "count_matches srch text (pattern # rest) score =
     (case srch pattern text of
        None \<Rightarrow> Inl ReError
      | Some found \<Rightarrow> count_matches srch text rest (if found then score + 1 else score))"

definition regex_match_score :: "(str \<Rightarrow> str \<Rightarrow> bool option) \<Rightarrow> str \<Rightarrow> str list \<Rightarrow> error + real" where
  "regex_match_score srch text patterns =
     (case count_matches srch text patterns 0 of
        Inl e \<Rightarrow> Inl e
      | Inr score \<Rightarrow> truediv (real score) (real (max (length patterns) 1)))"

text \<open>The spec's reading of the score: how many patterns find a match in the text.\<close>

definition matching_patterns :: "(str \<Rightarrow> str \<Rightarrow> bool option) \<Rightarrow> str \<Rightarrow> str list \<Rightarrow> str list" where
  "matching_patterns srch text patterns = filter (\<lambda>p. srch p text = Some True) patterns"

subsection \<open>\<^verbatim>\<open>evaluate_social_post\<close>\<close>

text \<open>
  \<^verbatim>\<open>str.split()\<close> without an argument cuts the text at runs of whitespace and drops
  empty pieces. The whitespace code points are those of CPython's
  \<^verbatim>\<open>str.isspace\<close>.
\<close>

definition is_space :: "codepoint \<Rightarrow> bool" where
  "is_space c \<longleftrightarrow>
     (9 \<le> c \<and> c \<le> 13) \<or> (28 \<le> c \<and> c \<le> 32) \<or> c = 133 \<or> c = 160 \<or> c = 5760 \<or>
     (8192 \<le> c \<and> c \<le> 8202) \<or> c = 8232 \<or> c = 8233 \<or> c = 8239 \<or> c = 8287 \<or> c = 12288"

fun split_from :: "str \<Rightarrow> str \<Rightarrow> str list" where
  "split_from cur [] = (if cur = [] then [] else [cur])"
| "split_from cur (c # cs) =
     (if is_space c then (if cur = [] then split_from [] cs else cur # split_from [] cs)
      else split_from (cur @ [c]) cs)"

definition split :: "str \<Rightarrow> str list" where
  "split s = split_from [] s"

text \<open>
  \<^verbatim>\<open>re.search(r"#\w+", post)\<close>: some \<^verbatim>\<open>#\<close> (code point 35) is directly followed
  by a word character.
\<close>

fun hashtag_search :: "(codepoint \<Rightarrow> bool) \<Rightarrow> str \<Rightarrow> bool" where
  "hashtag_search w [] = False"
| "hashtag_search w [c] = False"
| "hashtag_search w (c # d # rest) = ((c = 35 \<and> w d) \<or> hashtag_search w (d # rest))"

text \<open>
  \<^verbatim>\<open>re.search(r"[\U0001F300-\U0001F9FF]|[\U0001F600-\U0001F64F]", post)\<close>: some code
  point lies in one of the two ranges.
\<close>

definition is_emoji :: "codepoint \<Rightarrow> bool" where
  "is_emoji c \<longleftrightarrow> (0x1F300 \<le> c \<and> c \<le> 0x1F9FF) \<or> (0x1F600 \<le> c \<and> c \<le> 0x1F64F)"

definition emoji_search :: "str \<Rightarrow> bool" where
  "emoji_search post = list_ex is_emoji post"

text \<open>Python's \<^verbatim>\<open>needle in haystack\<close> on strings: a contiguous occurrence.\<close>

fun starts_with :: "str \<Rightarrow> str \<Rightarrow> bool" where
  "starts_with [] hay = True"
| "starts_with (x # xs) [] = False"
| "starts_with (x # xs) (y # ys) = (x = y \<and> starts_with xs ys)"

fun str_in :: "str \<Rightarrow> str \<Rightarrow> bool" where
  "str_in needle [] = (needle = [])"
| "str_in needle (h # hs) = (starts_with needle (h # hs) \<or> str_in needle hs)"

text \<open>\<^verbatim>\<open>sum(1 for kw in expected_keywords if kw.lower() in post.lower())\<close>\<close>

fun keyword_hits :: "pylib \<Rightarrow> str \<Rightarrow> str list \<Rightarrow> nat" where
  "keyword_hits lib post [] = 0"
| "keyword_hits lib post (kw # kws) =
     (if str_in (str_lower lib kw) (str_lower lib post) then 1 else 0) + keyword_hits lib post kws"

record post_eval =
  quality :: real
  keyword_coverage :: real

definition length_ok :: "str \<Rightarrow> bool" where
  "length_ok post \<longleftrightarrow> 50 \<le> length (split post) \<and> length (split post) \<le> 280"

text \<open>
  \<^verbatim>\<open>
  def evaluate_social_post(post, expected_keywords):
      length_ok = 50 <= len(post.split()) <= 280
      has_hashtag = bool(re.search(r"#\w+", post))
      has_emoji = bool(re.search(r"[\U0001F300-\U0001F9FF]|[\U0001F600-\U0001F64F]", post))
      keyword_score = sum(1 for kw in expected_keywords
                          if kw.lower() in post.lower()) / len(expected_keywords)
      quality = (0.3 * keyword_score + 0.3 * (1 if length_ok else 0) +
                 0.2 * (1 if has_hashtag else 0) + 0.2 * (1 if has_emoji else 0))
      return {"quality": quality, "keyword_coverage": keyword_score}
  \<close>
\<close>

definition evaluate_social_post :: "pylib \<Rightarrow> str \<Rightarrow> str list \<Rightarrow> error + post_eval" where
  "evaluate_social_post lib post expected_keywords =
     (let has_hashtag = hashtag_search (word_char lib) post;
          has_emoji = emoji_search post
      in case truediv (real (keyword_hits lib post expected_keywords))
                      (real (length expected_keywords)) of
           Inl e \<Rightarrow> Inl e
         | Inr keyword_score \<Rightarrow>
             Inr \<lparr>quality =
                    3 / 10 * keyword_score +
                    3 / 10 * (if length_ok post then 1 else 0) +
                    2 / 10 * (if has_hashtag then 1 else 0) +
                    2 / 10 * (if has_emoji then 1 else 0),
                  keyword_coverage = keyword_score\<rparr>)"

text \<open>The spec's reading of the four sub-checks.\<close>

definition keyword_present :: "pylib \<Rightarrow> str \<Rightarrow> str \<Rightarrow> bool" where
  "keyword_present lib post kw \<longleftrightarrow> (\<exists>u v. str_lower lib post = u @ str_lower lib kw @ v)"

definition keyword_fraction :: "pylib \<Rightarrow> str \<Rightarrow> str list \<Rightarrow> real" where
  "keyword_fraction lib post kws =
     real (length (filter (keyword_present lib post) kws)) / real (length kws)"

definition contains_hashtag :: "pylib \<Rightarrow> str \<Rightarrow> bool" where
  "contains_hashtag lib post \<longleftrightarrow> (\<exists>u c v. post = u @ [35, c] @ v \<and> word_char lib c)"

definition contains_emoji :: "str \<Rightarrow> bool" where
  "contains_emoji post \<longleftrightarrow>
     (\<exists>c \<in> set post. (0x1F300 \<le> c \<and> c \<le> 0x1F9FF) \<or> (0x1F600 \<le> c \<and> c \<le> 0x1F64F))"

definition word_count :: "str \<Rightarrow> nat" where
  "word_count post = length (split post)"

definition indicator :: "bool \<Rightarrow> real" where
  "indicator b = (if b then 1 else 0)"

subsection \<open>\<^verbatim>\<open>cosine_text_similarity\<close>\<close>

text \<open>
  \<^verbatim>\<open>
  def cosine_text_similarity(text1, text2):
      vectorizer = TfidfVectorizer(stop_words='english', lowercase=True)
      try:
          tfidf = vectorizer.fit_transform([text1, text2])
          return float(cosine_similarity(tfidf[0:1], tfidf[1:2])[0][0])
      except:
          return 0.0
  \<close>
\<close>

definition cosine_text_similarity :: "pylib \<Rightarrow> str \<Rightarrow> str \<Rightarrow> real" where
  "cosine_text_similarity lib text1 text2 =
     (case tfidf_cosine lib text1 text2 of None \<Rightarrow> 0 | Some v \<Rightarrow> v)"

subsection \<open>\<^verbatim>\<open>EvaluationResult\<close> and \<^verbatim>\<open>compute_overall_score\<close>\<close>

record EvaluationResult =
  scenario :: str
  relevance_score :: real
  personalization_score :: real
  trend_alignment :: real
  event_coverage :: real
  post_quality_avg :: real
  overall_score :: real
  passed :: bool

text \<open>
  The aggregator builds a pandas \<^verbatim>\<open>DataFrame\<close> from one dictionary per result, with
  the keys \<^verbatim>\<open>scenario\<close>, \<^verbatim>\<open>overall\<close> and \<^verbatim>\<open>passed\<close>. A frame built from a list of
  dictionaries has the keys of the dictionaries as its columns, so the frame of the empty
  list has no column at all. Indexing a frame by a column it does not have raises
  \<^verbatim>\<open>KeyError\<close>; the mean of an empty column is NaN, written \<open>None\<close> here;
  \<^verbatim>\<open>idxmax\<close> and \<^verbatim>\<open>idxmin\<close> give the first position of the extreme value, and
  \<^verbatim>\<open>df.empty\<close> holds when the frame has no row or no column.
\<close>

type_synonym row = "str \<times> real \<times> bool"

record dataframe =
  columns :: "string list"
  rows :: "row list"

definition DataFrame :: "EvaluationResult list \<Rightarrow> dataframe" where
  "DataFrame results =
     \<lparr>columns = (if results = [] then [] else [''scenario'', ''overall'', ''passed'']),
      rows = map (\<lambda>r. (scenario r, overall_score r, passed r)) results\<rparr>"

definition column :: "dataframe \<Rightarrow> string \<Rightarrow> (row \<Rightarrow> 'a) \<Rightarrow> error + 'a list" where
  "column df name field =
     (if name \<in> set (columns df) then Inr (map field (rows df)) else Inl (KeyError name))"

definition df_empty :: "dataframe \<Rightarrow> bool" where
  "df_empty df \<longleftrightarrow> rows df = [] \<or> columns df = []"

definition mean :: "real list \<Rightarrow> real option" where
  "mean xs = (if xs = [] then None else Some (sum_list xs / real (length xs)))"

definition bool_value :: "bool \<Rightarrow> real" where
  "bool_value b = (if b then 1 else 0)"

fun first_best :: "(real \<Rightarrow> real \<Rightarrow> bool) \<Rightarrow> real list \<Rightarrow> nat \<Rightarrow> nat \<Rightarrow> real \<Rightarrow> nat" where
  "first_best better [] i best_i best = best_i"
| "first_best better (x # xs) i best_i best =
     (if better x best then first_best better xs (i + 1) i x
      else first_best better xs (i + 1) best_i best)"

definition idxmax :: "real list \<Rightarrow> error + nat" where
  "idxmax xs = (case xs of [] \<Rightarrow> Inl ValueError | x # rest \<Rightarrow> Inr (first_best (\<lambda>a b. b < a) rest 1 0 x))"

definition idxmin :: "real list \<Rightarrow> error + nat" where
  "idxmin xs = (case xs of [] \<Rightarrow> Inl ValueError | x # rest \<Rightarrow> Inr (first_best (\<lambda>a b. a < b) rest 1 0 x))"

text \<open>\<^verbatim>\<open>df.loc[i, "scenario"]\<close> on the default index: the label of row \<open>i\<close>.\<close>

definition loc_scenario :: "dataframe \<Rightarrow> nat \<Rightarrow> error + str" where
  "loc_scenario df i =
     (if ''scenario'' \<in> set (columns df) \<and> i < length (rows df) then Inr (fst (rows df ! i))
      else Inl (KeyError ''scenario''))"

definition extreme_scenario :: "dataframe \<Rightarrow> (real list \<Rightarrow> error + nat) \<Rightarrow> error + str" where
  "extreme_scenario df idx =
     (if \<not> df_empty df then
        (case column df ''overall'' (\<lambda>r. fst (snd r)) of
           Inl e \<Rightarrow> Inl e
         | Inr overall_col \<Rightarrow>
             (case idx overall_col of Inl e \<Rightarrow> Inl e | Inr i \<Rightarrow> loc_scenario df i))
      else Inr (ascii ''N/A''))"

record summary =
  total_scenarios :: nat
  pass_rate :: "real option"
  avg_overall_score :: "real option"
  best_scenario :: str
  worst_scenario :: str

text \<open>
  \<^verbatim>\<open>
  def compute_overall_score(results):
      df = pd.DataFrame([{"scenario": r.scenario, "overall": r.overall_score,
                          "passed": r.passed} for r in results])
      return {
          "total_scenarios": len(df),
          "pass_rate": df["passed"].mean(),
          "avg_overall_score": df["overall"].mean(),
          "best_scenario": df.loc[df["overall"].idxmax(), "scenario"] if not df.empty else "N/A",
          "worst_scenario": df.loc[df["overall"].idxmin(), "scenario"] if not df.empty else "N/A"
      }
  \<close>
  The entries of the dictionary are evaluated in the order they are written.
\<close>

definition compute_overall_score :: "EvaluationResult list \<Rightarrow> error + summary" where
  "compute_overall_score results =
     (let df = DataFrame results in
      case column df ''passed'' (\<lambda>r. snd (snd r)) of
        Inl e \<Rightarrow> Inl e
      | Inr passed_col \<Rightarrow>
      (case column df ''overall'' (\<lambda>r. fst (snd r)) of
        Inl e \<Rightarrow> Inl e
      | Inr overall_col \<Rightarrow>
      (case extreme_scenario df idxmax of
        Inl e \<Rightarrow> Inl e
      | Inr best \<Rightarrow>
      (case extreme_scenario df idxmin of
        Inl e \<Rightarrow> Inl e
      | Inr worst \<Rightarrow>
          Inr \<lparr>total_scenarios = length (rows df),
               pass_rate = mean (map bool_value passed_col),
               avg_overall_score = mean overall_col,
               best_scenario = best,
               worst_scenario = worst\<rparr>))))"

section \<open>The evaluation driver\<close>

text \<open>
  A golden scenario: the request and the expected criteria; every key of the criteria is
  optional (the driver reads them with \<^verbatim>\<open>expected.get(key, default)\<close>).
\<close>

record criteria =
  category :: "str option"
  season :: "str option"
  age_group :: "str option"
  gender :: "str option"
  market :: "str option"
  trends :: "str list option"
  events :: "str list option"
  required_keywords :: "str list option"
  social_post_quality :: "real option"

record item =
  item_id :: nat
  user_input :: str
  expected :: criteria

text \<open>
  What the agent returns: \<^verbatim>\<open>recommendations\<close> is a dictionary, whose entry
  \<^verbatim>\<open>suggestions\<close> may be missing, or any other value, known by its \<^verbatim>\<open>str()\<close>;
  \<^verbatim>\<open>promotions\<close> is a list of dictionaries with optional \<^verbatim>\<open>offer\<close> and
  \<^verbatim>\<open>discount\<close>; \<^verbatim>\<open>social_posts\<close> maps a platform to its post, in insertion order.
  Each of the three keys may be missing from the output.
\<close>

datatype recs = RecDict "str option" | RecOther str

record promotion =
  offer :: "str option"
  discount :: "str option"

record agent_output =
  recommendations :: "recs option"
  promotions :: "promotion list option"
  social_posts :: "(str \<times> str) list option"

text \<open>\<^verbatim>\<open>d.get(key, default)\<close>\<close>

definition get_or :: "'a \<Rightarrow> 'a option \<Rightarrow> 'a" where
  "get_or dflt v = (case v of None \<Rightarrow> dflt | Some x \<Rightarrow> x)"

text \<open>\<^verbatim>\<open>sep.join(parts)\<close>\<close>

fun join :: "str \<Rightarrow> str list \<Rightarrow> str" where
  "join sep [] = []"
| "join sep [x] = x"
| "join sep (x # y # ys) = x @ sep @ join sep (y # ys)"

definition rec_text_of :: "recs \<Rightarrow> str" where
  "rec_text_of r =
     (case r of RecDict s \<Rightarrow> get_or [] s | RecOther t \<Rightarrow> t)"

definition promo_text_of :: "promotion list \<Rightarrow> str" where
  "promo_text_of ps =
     join (ascii '' | '') (map (\<lambda>p. get_or [] (offer p) @ ascii '' '' @ get_or [] (discount p)) ps)"

text \<open>
  \<^verbatim>\<open>[evaluate_social_post(post, keywords)["quality"] for post in social_posts.values()]\<close>
\<close>

fun post_qualities :: "pylib \<Rightarrow> str list \<Rightarrow> str list \<Rightarrow> error + real list" where
  "post_qualities lib [] kws = Inr []"
| "post_qualities lib (post # posts) kws =
     (case evaluate_social_post lib post kws of
        Inl e \<Rightarrow> Inl e
      | Inr r \<Rightarrow>
          (case post_qualities lib posts kws of
             Inl e \<Rightarrow> Inl e
           | Inr qs \<Rightarrow> Inr (quality r # qs)))"

text \<open>The five scores of one scenario, as the driver's local variables hold them.\<close>

record scores =
  relevance :: real
  personalization :: real
  trend_align :: real
  event_cov :: real
  post_avg :: real

definition personalization_patterns :: "criteria \<Rightarrow> str list" where
  "personalization_patterns ex =
     [get_or [] (age_group ex), get_or [] (gender ex), get_or (ascii ''Singapore|US'') (market ex)]"

text \<open>
  \<^verbatim>\<open>
  recommendations = output.get("recommendations", {})
  promotions = output.get("promotions", [])
  social_posts = output.get("social_posts", {})
  rec_text = recommendations.get("suggestions", "") if isinstance(recommendations, dict) \
             else str(recommendations)
  promo_text = " | ".join([f"{p.get('offer','')} {p.get('discount','')}" for p in promotions])
  all_posts = " ".join(social_posts.values())
  relevance = cosine_text_similarity(user_input + " " + rec_text + promo_text, user_input)
  personalization = regex_match_score(all_posts, [expected.get("age_group", ""),
                        expected.get("gender", ""), expected.get("market", "Singapore|US")])
  trend_align = regex_match_score(all_posts, expected.get("trends", []))
  event_cov = regex_match_score(all_posts, expected.get("events", []))
  post_qualities = [...]
  post_quality_avg = sum(post_qualities) / len(post_qualities) if post_qualities else 0
  \<close>
\<close>

definition score_item :: "pylib \<Rightarrow> item \<Rightarrow> agent_output \<Rightarrow> error + scores" where
  "score_item lib it output =
     (let ex = expected it;
          rec_text = rec_text_of (get_or (RecDict None) (recommendations output));
          promo_text = promo_text_of (get_or [] (promotions output));
          posts = map snd (get_or [] (social_posts output));
          all_posts = join (ascii '' '') posts;
          rel = cosine_text_similarity lib
                  (user_input it @ ascii '' '' @ rec_text @ promo_text) (user_input it)
      in case regex_match_score (search lib) all_posts (personalization_patterns ex) of
           Inl e \<Rightarrow> Inl e
         | Inr pers \<Rightarrow>
         (case regex_match_score (search lib) all_posts (get_or [] (trends ex)) of
           Inl e \<Rightarrow> Inl e
         | Inr trend \<Rightarrow>
         (case regex_match_score (search lib) all_posts (get_or [] (events ex)) of
           Inl e \<Rightarrow> Inl e
         | Inr ev \<Rightarrow>
         (case post_qualities lib posts (get_or [] (required_keywords ex)) of
           Inl e \<Rightarrow> Inl e
         | Inr qs \<Rightarrow>
             Inr \<lparr>relevance = rel, personalization = pers, trend_align = trend,
                  event_cov = ev,
                  post_avg = (if qs = [] then 0 else sum_list qs / real (length qs))\<rparr>))))"

text \<open>
  \<^verbatim>\<open>
  overall = (0.25 * relevance + 0.20 * personalization + 0.15 * trend_align +
             0.15 * event_cov + 0.25 * post_quality_avg)
  passed = overall >= 0.75
  \<close>
  Here in exact arithmetic; \<open>overall_on\<close> below has the rounding of the driver's
  doubles, which decides the comparison when the sum is within a rounding error of 0.75.
\<close>

definition overall :: "scores \<Rightarrow> real" where
  "overall sc =
     25 / 100 * relevance sc + 20 / 100 * personalization sc + 15 / 100 * trend_align sc +
     15 / 100 * event_cov sc + 25 / 100 * post_avg sc"

text \<open>
  \<^verbatim>\<open>round(x, 3)\<close>: the nearest multiple of 1/1000, a tie going to the even one.
\<close>

definition round_half_even :: "real \<Rightarrow> int" where
  "round_half_even y =
     (let f = \<lfloor>y\<rfloor>; d = y - of_int f
      in if d < 1 / 2 then f else if 1 / 2 < d then f + 1 else if even f then f else f + 1)"

definition round3 :: "real \<Rightarrow> real" where
  "round3 x = of_int (round_half_even (x * 1000)) / 1000"

text \<open>
  \<^verbatim>\<open>
  result = EvaluationResult(scenario=user_input[:50],
      relevance_score=round(relevance, 3), personalization_score=round(personalization, 3),
      trend_alignment=round(trend_align, 3), event_coverage=round(event_cov, 3),
      post_quality_avg=round(post_quality_avg, 3), overall_score=round(overall, 3),
      passed=passed)
  \<close>
\<close>

definition make_result :: "str \<Rightarrow> scores \<Rightarrow> EvaluationResult" where
  "make_result input sc =
     \<lparr>scenario = take 50 input,
      relevance_score = round3 (relevance sc),
      personalization_score = round3 (personalization sc),
      trend_alignment = round3 (trend_align sc),
      event_coverage = round3 (event_cov sc),
      post_quality_avg = round3 (post_avg sc),
      overall_score = round3 (overall sc),
      passed = (75 / 100 \<le> overall sc)\<rparr>"

text \<open>The result recorded when the agent call raises or runs into the timeout.\<close>

definition failed_result :: "str \<Rightarrow> EvaluationResult" where
  "failed_result input =
     \<lparr>scenario = take 50 input, relevance_score = 0, personalization_score = 0,
      trend_alignment = 0, event_coverage = 0, post_quality_avg = 0, overall_score = 0,
      passed = False\<rparr>"

text \<open>
  One turn of the driver's loop. The agent's outcome is \<open>None\<close> when
  \<^verbatim>\<open>asyncio.wait_for(agent.run(user_input), timeout=60)\<close> raises, and the output
  otherwise. Only the agent call is inside the \<^verbatim>\<open>try\<close>: an error raised while
  scoring leaves the loop.
\<close>

definition evaluate_item :: "pylib \<Rightarrow> item \<Rightarrow> agent_output option \<Rightarrow> error + EvaluationResult" where
  "evaluate_item lib it outcome =
     (case outcome of
        None \<Rightarrow> Inr (failed_result (user_input it))
      | Some output \<Rightarrow>
          (case score_item lib it output of
             Inl e \<Rightarrow> Inl e
           | Inr sc \<Rightarrow> Inr (make_result (user_input it) sc)))"

section \<open>The arithmetic of the runtime\<close>

text \<open>
  The scores are Python \<^verbatim>\<open>float\<close> values, IEEE 754 doubles: every literal, product, sum
  and quotient is the exact result rounded to the nearest double. The functions of this
  section are the functions of the source once more, with that rounding as a parameter:
  \<open>rnd\<close> rounds the exact result of one operation, and \<open>fsum\<close> is the built-in
  \<^verbatim>\<open>sum\<close> on a list of floats.
\<close>

record arith =
  rnd :: "real \<Rightarrow> real"
  fsum :: "real list \<Rightarrow> real"

definition fmul :: "arith \<Rightarrow> real \<Rightarrow> real \<Rightarrow> real" where
  "fmul ar a b = rnd ar (a * b)"

definition fadd :: "arith \<Rightarrow> real \<Rightarrow> real \<Rightarrow> real" where
  "fadd ar a b = rnd ar (a + b)"

text \<open>\<^verbatim>\<open>a / b\<close> on two ints or on a float and an int: the rounded quotient.\<close>

definition truediv_on :: "arith \<Rightarrow> real \<Rightarrow> real \<Rightarrow> error + real" where
  "truediv_on ar a b = (if b = 0 then Inl ZeroDivisionError else Inr (rnd ar (a / b)))"

definition regex_match_score_on ::
  "arith \<Rightarrow> (str \<Rightarrow> str \<Rightarrow> bool option) \<Rightarrow> str \<Rightarrow> str list \<Rightarrow> error + real" where
  "regex_match_score_on ar srch text patterns =
     (case count_matches srch text patterns 0 of
        Inl e \<Rightarrow> Inl e
      | Inr score \<Rightarrow> truediv_on ar (real score) (real (max (length patterns) 1)))"

definition evaluate_social_post_on :: "arith \<Rightarrow> pylib \<Rightarrow> str \<Rightarrow> str list \<Rightarrow> error + post_eval" where
  "evaluate_social_post_on ar lib post expected_keywords =
     (let has_hashtag = hashtag_search (word_char lib) post;
          has_emoji = emoji_search post
      in case truediv_on ar (real (keyword_hits lib post expected_keywords))
                         (real (length expected_keywords)) of
           Inl e \<Rightarrow> Inl e
         | Inr keyword_score \<Rightarrow>
             Inr \<lparr>quality =
                    fadd ar
                      (fadd ar
                        (fadd ar
                          (fmul ar (rnd ar (3 / 10)) keyword_score)
                          (fmul ar (rnd ar (3 / 10)) (if length_ok post then 1 else 0)))
                        (fmul ar (rnd ar (2 / 10)) (if has_hashtag then 1 else 0)))
                      (fmul ar (rnd ar (2 / 10)) (if has_emoji then 1 else 0)),
                  keyword_coverage = keyword_score\<rparr>)"

fun post_qualities_on :: "arith \<Rightarrow> pylib \<Rightarrow> str list \<Rightarrow> str list \<Rightarrow> error + real list" where
  "post_qualities_on ar lib [] kws = Inr []"
| "post_qualities_on ar lib (post # posts) kws =
     (case evaluate_social_post_on ar lib post kws of
        Inl e \<Rightarrow> Inl e
      | Inr r \<Rightarrow>
          (case post_qualities_on ar lib posts kws of
             Inl e \<Rightarrow> Inl e
           | Inr qs \<Rightarrow> Inr (quality r # qs)))"

definition score_item_on :: "arith \<Rightarrow> pylib \<Rightarrow> item \<Rightarrow> agent_output \<Rightarrow> error + scores" where
  "score_item_on ar lib it output =
     (let ex = expected it;
          rec_text = rec_text_of (get_or (RecDict None) (recommendations output));
          promo_text = promo_text_of (get_or [] (promotions output));
          posts = map snd (get_or [] (social_posts output));
          all_posts = join (ascii '' '') posts;
          rel = cosine_text_similarity lib
                  (user_input it @ ascii '' '' @ rec_text @ promo_text) (user_input it)
      in case regex_match_score_on ar (search lib) all_posts (personalization_patterns ex) of
           Inl e \<Rightarrow> Inl e
         | Inr pers \<Rightarrow>
         (case regex_match_score_on ar (search lib) all_posts (get_or [] (trends ex)) of
           Inl e \<Rightarrow> Inl e
         | Inr trend \<Rightarrow>
         (case regex_match_score_on ar (search lib) all_posts (get_or [] (events ex)) of
           Inl e \<Rightarrow> Inl e
         | Inr ev \<Rightarrow>
         (case post_qualities_on ar lib posts (get_or [] (required_keywords ex)) of
           Inl e \<Rightarrow> Inl e
         | Inr qs \<Rightarrow>
             Inr \<lparr>relevance = rel, personalization = pers, trend_align = trend,
                  event_cov = ev,
                  post_avg = (if qs = [] then 0 else rnd ar (fsum ar qs / real (length qs)))\<rparr>))))"

text \<open>
  The weighted sum, as Python evaluates it: five products, added from left to right.
\<close>

definition overall_on :: "arith \<Rightarrow> scores \<Rightarrow> real" where
  "overall_on ar sc =
     fadd ar
       (fadd ar
         (fadd ar
           (fadd ar
             (fmul ar (rnd ar (25 / 100)) (relevance sc))
             (fmul ar (rnd ar (20 / 100)) (personalization sc)))
           (fmul ar (rnd ar (15 / 100)) (trend_align sc)))
         (fmul ar (rnd ar (15 / 100)) (event_cov sc)))
       (fmul ar (rnd ar (25 / 100)) (post_avg sc))"

text \<open>
  \<^verbatim>\<open>round(x, 3)\<close> on a float gives the float nearest to the rounded decimal; the
  threshold is the literal \<^verbatim>\<open>0.75\<close>.
\<close>

definition make_result_on :: "arith \<Rightarrow> str \<Rightarrow> scores \<Rightarrow> EvaluationResult" where
  "make_result_on ar input sc =
     \<lparr>scenario = take 50 input,
      relevance_score = rnd ar (round3 (relevance sc)),
      personalization_score = rnd ar (round3 (personalization sc)),
      trend_alignment = rnd ar (round3 (trend_align sc)),
      event_coverage = rnd ar (round3 (event_cov sc)),
      post_quality_avg = rnd ar (round3 (post_avg sc)),
      overall_score = rnd ar (round3 (overall_on ar sc)),
      passed = (rnd ar (75 / 100) \<le> overall_on ar sc)\<rparr>"

definition evaluate_item_on ::
  "arith \<Rightarrow> pylib \<Rightarrow> item \<Rightarrow> agent_output option \<Rightarrow> error + EvaluationResult" where
  "evaluate_item_on ar lib it outcome =
     (case outcome of
        None \<Rightarrow> Inr (failed_result (user_input it))
      | Some output \<Rightarrow>
          (case score_item_on ar lib it output of
             Inl e \<Rightarrow> Inl e
           | Inr sc \<Rightarrow> Inr (make_result_on ar (user_input it) sc)))"

text \<open>
  Without rounding the functions are those of the sections above: these give the
  scores in exact arithmetic.
\<close>

definition exact :: arith where
  "exact = \<lparr>rnd = (\<lambda>x. x), fsum = sum_list\<rparr>"

text \<open>
  Rounding to the nearest double, ties to the even significand. A double in
  \<open>[2^52, 2^53)\<close> is an integer; a smaller magnitude is doubled until it lies
  there (1074 doublings reach the spacing of the subnormal numbers, which stays
  \<open>2^-1074\<close>), a larger one is halved. Magnitudes of \<open>2^1024\<close> and more, where
  a double overflows, are left as they are: the scores are far below.
\<close>

fun fl_up :: "nat \<Rightarrow> real \<Rightarrow> real" where
  "fl_up 0 x = of_int (round_half_even x)"
| "fl_up (Suc n) x =
     (if 2 ^ 52 \<le> x then of_int (round_half_even x) else fl_up n (2 * x) / 2)"

fun fl_down :: "nat \<Rightarrow> real \<Rightarrow> real" where
  "fl_down 0 x = x"
| "fl_down (Suc n) x =
     (if x < 2 ^ 53 then of_int (round_half_even x) else 2 * fl_down n (x / 2))"

definition fl_mag :: "real \<Rightarrow> real" where
  "fl_mag x = (if 2 ^ 53 \<le> x then fl_down 971 x else fl_up 1074 x)"

definition fl :: "real \<Rightarrow> real" where
  "fl x = (if x < 0 then - fl_mag (- x) else fl_mag x)"

text \<open>
  Doubles, with the sum as a parameter: CPython adds the floats from left to right up
  to version 3.11 (\<open>seq_sum\<close>) and with a compensation term from 3.12 on; both
  return the element of a one-element list.
\<close>

definition binary64 :: "(real list \<Rightarrow> real) \<Rightarrow> arith" where
  "binary64 s = \<lparr>rnd = fl, fsum = s\<rparr>"

definition seq_sum :: "real list \<Rightarrow> real" where
  "seq_sum qs = foldl (\<lambda>s q. fl (s + q)) 0 qs"

section \<open>A reference instance of the library functions\<close>

text \<open>
  For running the functions on concrete texts: \<^verbatim>\<open>str.lower\<close> and \<^verbatim>\<open>\w\<close> as
  they act on ASCII (every other code point is left alone, and is no word character),
  and \<^verbatim>\<open>re.search\<close> with \<^verbatim>\<open>re.IGNORECASE\<close> for the patterns built from literal
  characters, \<^verbatim>\<open>.\<close>, \<^verbatim>\<open>|\<close>, \<^verbatim>\<open>*\<close>, \<^verbatim>\<open>+\<close>, \<^verbatim>\<open>?\<close>, groups and escaped
  punctuation. A pattern outside this fragment is treated like one that does not compile.
  The instance agrees with Python on patterns of the fragment and texts made of ASCII
  and emoji code points; the case rules of other scripts are not part of it. It serves
  to run the functions on such inputs only: outside the fragment Python compiles many
  patterns that the instance refuses, so no property below that is stated for every
  pattern is stated of this instance.
\<close>

definition ascii_lower :: "codepoint \<Rightarrow> codepoint" where
  "ascii_lower c = (if 65 \<le> c \<and> c \<le> 90 then c + 32 else c)"

definition ascii_alnum :: "codepoint \<Rightarrow> bool" where
  "ascii_alnum c \<longleftrightarrow> (48 \<le> c \<and> c \<le> 57) \<or> (65 \<le> c \<and> c \<le> 90) \<or> (97 \<le> c \<and> c \<le> 122)"

definition ascii_word :: "codepoint \<Rightarrow> bool" where
  "ascii_word c \<longleftrightarrow> ascii_alnum c \<or> c = 95"

datatype rexp = Nul | Eps | Lit codepoint | Dot | Alt rexp rexp | Seq rexp rexp | Star rexp

fun nullable :: "rexp \<Rightarrow> bool" where
  "nullable Nul = False"
| "nullable Eps = True"
| "nullable (Lit c) = False"
| "nullable Dot = False"
| "nullable (Alt r s) = (nullable r \<or> nullable s)"
| "nullable (Seq r s) = (nullable r \<and> nullable s)"
| "nullable (Star r) = True"

text \<open>What is left of \<open>r\<close> after reading \<open>c\<close>; \<^verbatim>\<open>.\<close> reads anything but a newline.\<close>

fun deriv :: "codepoint \<Rightarrow> rexp \<Rightarrow> rexp" where
  "deriv c Nul = Nul"
| "deriv c Eps = Nul"
| "deriv c (Lit d) = (if ascii_lower c = ascii_lower d then Eps else Nul)"
| "deriv c Dot = (if c = 10 then Nul else Eps)"
| "deriv c (Alt r s) = Alt (deriv c r) (deriv c s)"
| "deriv c (Seq r s) =
     (if nullable r then Alt (Seq (deriv c r) s) (deriv c s) else Seq (deriv c r) s)"
| "deriv c (Star r) = Seq (deriv c r) (Star r)"

text \<open>Some prefix of the text matches; some part of the text matches.\<close>

fun match_here :: "rexp \<Rightarrow> str \<Rightarrow> bool" where
  "match_here r [] = nullable r"
| "match_here r (c # cs) = (nullable r \<or> match_here (deriv c r) cs)"

fun match_anywhere :: "rexp \<Rightarrow> str \<Rightarrow> bool" where
  "match_anywhere r [] = nullable r"
| "match_anywhere r (c # cs) = (match_here r (c # cs) \<or> match_anywhere r cs)"

text \<open>
  The pattern is read from left to right. A frame holds the finished branches of the
  group being read and the items of its current branch, the latest first; the stack
  holds the frames of the enclosing groups; the flag tells whether a repetition may
  follow.
\<close>

type_synonym frame = "rexp list \<times> rexp list"

definition branch_of :: "rexp list \<Rightarrow> rexp" where
  "branch_of items = foldl (\<lambda>r a. Seq a r) Eps items"

definition group_of :: "frame \<Rightarrow> rexp" where
  "group_of f = foldr Alt (fst f) (branch_of (snd f))"

definition repeat_of :: "codepoint \<Rightarrow> rexp \<Rightarrow> rexp" where
  "repeat_of c a = (if c = 42 then Star a else if c = 43 then Seq a (Star a) else Alt a Eps)"

fun parse :: "frame list \<Rightarrow> frame \<Rightarrow> bool \<Rightarrow> str \<Rightarrow> rexp option" where
  "parse stack cur q [] = (if stack = [] then Some (group_of cur) else None)"
| "parse stack cur q (c # cs) =
     (if c = 40 then
        (if take 1 cs = [63] then None else parse (cur # stack) ([], []) False cs)
      else if c = 41 then
        (case stack of
           [] \<Rightarrow> None
         | outer # st \<Rightarrow> parse st (fst outer, group_of cur # snd outer) True cs)
      else if c = 124 then parse stack (fst cur @ [branch_of (snd cur)], []) False cs
      else if c = 42 \<or> c = 43 \<or> c = 63 then
        (case snd cur of
           [] \<Rightarrow> None
         | a # items \<Rightarrow>
             if q then parse stack (fst cur, repeat_of c a # items) False cs else None)
      else if c = 92 then
        (case cs of
           [] \<Rightarrow> None
         | d # ds \<Rightarrow>
             if ascii_alnum d then None else parse stack (fst cur, Lit d # snd cur) True ds)
      else if c = 46 then parse stack (fst cur, Dot # snd cur) True cs
      else if c = 91 \<or> c = 123 \<or> c = 94 \<or> c = 36 then None
      else parse stack (fst cur, Lit c # snd cur) True cs)"

definition re_search :: "str \<Rightarrow> str \<Rightarrow> bool option" where
  "re_search pattern text =
     (case parse [] ([], []) False pattern of
        None \<Rightarrow> None
      | Some r \<Rightarrow> Some (match_anywhere r text))"

definition ascii_lib :: "(str \<Rightarrow> str \<Rightarrow> real option) \<Rightarrow> pylib" where
  "ascii_lib tfidf =
     \<lparr>str_lower = map ascii_lower, word_char = ascii_word, search = re_search,
      tfidf_cosine = tfidf\<rparr>"

section \<open>Texts and scenarios to run the functions on\<close>

text \<open>A relevance scorer that returns the same similarity for every pair of texts.\<close>

definition const_cosine :: "real \<Rightarrow> str \<Rightarrow> str \<Rightarrow> real option" where
  "const_cosine v text1 text2 = Some v"

text \<open>
  The post and the expected keywords of the spec's scenario, and a short post that
  has every keyword, a hashtag and an emoji (U+1F381).
\<close>

definition holiday_post :: str where
  "holiday_post = ascii ''Unwrap festive scents this Christmas! 20% off perfume bundles for her. #HolidayGifts''"

definition holiday_keywords :: "str list" where
  "holiday_keywords = map ascii [''perfume'', ''discount'', ''bundle'', ''gift'', ''holiday'']"

definition gift_post :: str where
  "gift_post = ascii ''perfume #gift '' @ [0x1F381]"

definition gift_keywords :: "str list" where
  "gift_keywords = map ascii [''perfume'', ''gift'']"

text \<open>
  Two golden scenarios with the output of the agent: social posts only, no
  recommendations and no promotions.
\<close>

definition no_criteria :: criteria where
  "no_criteria = \<lparr>category = None, season = None, age_group = None, gender = None,
     market = None, trends = None, events = None, required_keywords = None,
     social_post_quality = None\<rparr>"

definition posts_only :: "(str \<times> str) list \<Rightarrow> agent_output" where
  "posts_only posts = \<lparr>recommendations = None, promotions = None, social_posts = Some posts\<rparr>"

definition rounding_item :: item where
  "rounding_item =
     \<lparr>item_id = 1, user_input = ascii ''Perfume promotion for Christmas'',
      expected = no_criteria
        \<lparr>market := Some (ascii ''US''),
         trends := Some [ascii ''floral''],
         events := Some (map ascii [''Christmas'', ''New Year'', ''Black Friday'', ''Easter'', ''Halloween'']),
         required_keywords := Some (map ascii [''perfume'', ''gift'', ''holiday'', ''discount''])\<rparr>\<rparr>"

definition rounding_output :: agent_output where
  "rounding_output =
     posts_only [(ascii ''x'',
       ascii ''Floral perfume gift for Christmas and New Year holiday #sale '' @ [0x1F381])]"

text \<open>A relevance scorer whose vectorizer raises: no term is left in either text.\<close>

definition empty_vocabulary :: "str \<Rightarrow> str \<Rightarrow> real option" where
  "empty_vocabulary text1 text2 = None"

text \<open>
  A request of stop words only, answered by one post of 50 words that meets every
  criterion; and a request whose exact weighted sum is 0.75.
\<close>

definition exact_threshold_item :: item where
  "exact_threshold_item =
     \<lparr>item_id = 3, user_input = ascii ''the'',
      expected = no_criteria
        \<lparr>age_group := Some (ascii ''20-40''),
         gender := Some (ascii ''women''),
         market := Some (ascii ''Singapore''),
         trends := Some [ascii ''floral''],
         events := Some [ascii ''Christmas''],
         required_keywords := Some [ascii ''gift'']\<rparr>\<rparr>"

definition exact_threshold_output :: agent_output where
  "exact_threshold_output =
     posts_only [(ascii ''x'',
       ascii ''women 20-40 Singapore floral Christmas #gift '' @ [0x1F381]
         @ ascii '' gift gift gift gift gift gift gift gift gift gift gift gift''
         @ ascii '' gift gift gift gift gift gift gift gift gift gift gift gift''
         @ ascii '' gift gift gift gift gift gift gift gift gift gift gift gift''
         @ ascii '' gift gift gift gift gift gift gift'')]"

definition below_threshold_item :: item where
  "below_threshold_item =
     \<lparr>item_id = 4, user_input = ascii ''perfume'',
      expected = no_criteria
        \<lparr>market := Some (ascii ''US''),
         trends := Some [ascii ''gift''],
         events := Some [ascii ''gift'', ascii ''sale''],
         required_keywords := Some [ascii ''gift'']\<rparr>\<rparr>"

definition below_threshold_output :: agent_output where
  "below_threshold_output = posts_only [(ascii ''x'', ascii ''US gift'')]"

section \<open>Properties of the scoring library\<close>

lemmas text_defs =
  ascii_def ascii_lower_def ascii_word_def ascii_alnum_def is_emoji_def is_space_def

lemmas regex_defs = re_search_def group_of_def branch_of_def repeat_of_def

subsection \<open>Regex coverage\<close>

lemma count_matches_valid:
  "\<forall>p \<in> set ps. srch p t \<noteq> None \<Longrightarrow>
   count_matches srch t ps n = Inr (n + length (matching_patterns srch t ps))"
proof (induction ps arbitrary: n)
  case Nil
  then show ?case by (simp add: matching_patterns_def)
next
  case (Cons p ps)
  then obtain b where b: "srch p t = Some b" by auto
  from Cons have "count_matches srch t ps m = Inr (m + length (matching_patterns srch t ps))" for m
    by simp
  with b show ?case by (simp add: matching_patterns_def)
qed

lemma count_matches_error:
  "count_matches srch t ps n = Inl e \<Longrightarrow> e = ReError"
  by (induction ps arbitrary: n) (auto split: option.splits)

lemma matching_patterns_le: "length (matching_patterns srch t ps) \<le> length ps"
  by (simp add: matching_patterns_def)

text \<open>
  C4. For every text and every list of patterns (regular expressions: each of them
  compiles), \<open>regex_match_score\<close> returns the number of patterns that find a match in
  the text, divided by the number of patterns; the result lies in [0,1]. On the empty
  list the result is 0, and no list at all makes the division fail.
\<close>

theorem regex_match_score_fraction:
  "((\<forall>p \<in> set ps. srch p t \<noteq> None) \<longrightarrow>
     (\<exists>s. regex_match_score srch t ps = Inr s \<and> 0 \<le> s \<and> s \<le> 1 \<and>
          (ps \<noteq> [] \<longrightarrow> s = real (length (matching_patterns srch t ps)) / real (length ps)))) \<and>
   regex_match_score srch t [] = Inr 0 \<and>
   regex_match_score srch t ps \<noteq> Inl ZeroDivisionError"
proof (intro conjI impI)
  assume valid: "\<forall>p \<in> set ps. srch p t \<noteq> None"
  let ?k = "length (matching_patterns srch t ps)"
  let ?d = "max (length ps) 1"
  have cm: "count_matches srch t ps 0 = Inr ?k"
    using valid count_matches_valid [where ps = ps and srch = srch and t = t and n = 0]
    by simp
  have res: "regex_match_score srch t ps = Inr (real ?k / real ?d)"
    by (simp add: regex_match_score_def cm truediv_def)
  have "?k \<le> ?d" using matching_patterns_le [of srch t ps] by simp
  then have "real ?k / real ?d \<le> 1" by (simp add: divide_le_eq_1)
  moreover have "0 \<le> real ?k / real ?d" by simp
  moreover have "ps \<noteq> [] \<longrightarrow> real ?k / real ?d = real ?k / real (length ps)"
    by (cases ps) (simp_all add: max_def)
  ultimately show "\<exists>s. regex_match_score srch t ps = Inr s \<and> 0 \<le> s \<and> s \<le> 1 \<and>
        (ps \<noteq> [] \<longrightarrow> s = real ?k / real (length ps))"
    using res by blast
next
  show "regex_match_score srch t [] = Inr 0"
    by (simp add: regex_match_score_def truediv_def)
next
  show "regex_match_score srch t ps \<noteq> Inl ZeroDivisionError"
  proof (cases "count_matches srch t ps 0")
    case (Inl e)
    then have "e = ReError" by (rule count_matches_error)
    with Inl show ?thesis by (simp add: regex_match_score_def)
  next
    case (Inr k)
    have "real (max (length ps) 1) \<noteq> 0" by simp
    with Inr show ?thesis by (simp add: regex_match_score_def truediv_def)
  qed
qed

theorem regex_match_score_fraction_witness:
  "re_search (ascii ''Singapore|US'') (ascii ''Floral gifts, US only'') = Some True \<and>
   re_search (ascii ''floral'') (ascii ''Floral gifts, US only'') = Some True \<and>
   regex_match_score re_search (ascii ''Floral gifts, US only'') [ascii ''Singapore|US'', ascii ''floral''] = Inr 1 \<and>
   regex_match_score re_search (ascii ''Floral gifts, US only'') [] = Inr 0"
proof -
  have a: "re_search (ascii ''Singapore|US'') (ascii ''Floral gifts, US only'') = Some True"
    by (simp add: regex_defs text_defs)
  have b: "re_search (ascii ''floral'') (ascii ''Floral gifts, US only'') = Some True"
    by (simp add: regex_defs text_defs)
  have m: "matching_patterns re_search (ascii ''Floral gifts, US only'') [ascii ''Singapore|US'', ascii ''floral'']
             = [ascii ''Singapore|US'', ascii ''floral'']"
    by (simp add: matching_patterns_def a b)
  show ?thesis
    using a b m regex_match_score_fraction [of "[ascii ''Singapore|US'', ascii ''floral'']" re_search "ascii ''Floral gifts, US only''"]
    by auto
qed

subsection \<open>Social post quality\<close>

text \<open>The loops of the source compute what the spec's words say.\<close>

lemma starts_with_iff: "starts_with n h \<longleftrightarrow> (\<exists>v. h = n @ v)"
  by (induction n h rule: starts_with.induct) auto

lemma str_in_iff: "str_in n h \<longleftrightarrow> (\<exists>u v. h = u @ n @ v)"
proof (induction h)
  case Nil
  then show ?case by auto
next
  case (Cons a h)
  show ?case
  proof
    assume "str_in n (a # h)"
    then consider "starts_with n (a # h)" | "str_in n h" by auto
    then show "\<exists>u v. a # h = u @ n @ v"
    proof cases
      case 1
      then obtain v where "a # h = n @ v" by (auto simp: starts_with_iff)
      then have "a # h = [] @ n @ v" by simp
      then show ?thesis by blast
    next
      case 2
      with Cons obtain u v where "h = u @ n @ v" by blast
      then have "a # h = (a # u) @ n @ v" by simp
      then show ?thesis by blast
    qed
  next
    assume "\<exists>u v. a # h = u @ n @ v"
    then obtain u v where uv: "a # h = u @ n @ v" by blast
    show "str_in n (a # h)"
    proof (cases u)
      case Nil
      with uv have "starts_with n (a # h)" by (auto simp: starts_with_iff)
      then show ?thesis by simp
    next
      case (Cons b u')
      with uv have "h = u' @ n @ v" by simp
      with Cons.IH have "str_in n h" by blast
      then show ?thesis by simp
    qed
  qed
qed

lemma keyword_hits_filter:
  "keyword_hits lib post kws = length (filter (keyword_present lib post) kws)"
  by (induction kws) (simp_all add: keyword_present_def str_in_iff)

lemma keyword_fraction_hits:
  "keyword_fraction lib post kws = real (keyword_hits lib post kws) / real (length kws)"
  by (simp add: keyword_fraction_def keyword_hits_filter)

lemma hashtag_search_iff:
  "hashtag_search w post \<longleftrightarrow> (\<exists>u c v. post = u @ [35, c] @ v \<and> w c)"
proof (induction w post rule: hashtag_search.induct)
  case (1 w)
  then show ?case by simp
next
  case (2 w c)
  show ?case
  proof
    assume "hashtag_search w [c]"
    then show "\<exists>u x v. [c] = u @ [35, x] @ v \<and> w x" by simp
  next
    assume "\<exists>u x v. [c] = u @ [35, x] @ v \<and> w x"
    then obtain u x v where "[c] = u @ [35, x] @ v" by blast
    then have "length [c] = length (u @ [35, x] @ v)" by simp
    then show "hashtag_search w [c]" by simp
  qed
next
  case (3 w c d rest)
  note IH = this
  show ?case
  proof
    assume "hashtag_search w (c # d # rest)"
    then consider "c = 35 \<and> w d" | "hashtag_search w (d # rest)" by auto
    then show "\<exists>u x v. c # d # rest = u @ [35, x] @ v \<and> w x"
    proof cases
      case 1
      then have "c # d # rest = [] @ [35, d] @ rest \<and> w d" by simp
      then show ?thesis by blast
    next
      case 2
      with IH obtain u x v where "d # rest = u @ [35, x] @ v" "w x" by blast
      then have "c # d # rest = (c # u) @ [35, x] @ v \<and> w x" by simp
      then show ?thesis by blast
    qed
  next
    assume "\<exists>u x v. c # d # rest = u @ [35, x] @ v \<and> w x"
    then obtain u x v where uv: "c # d # rest = u @ [35, x] @ v" and wx: "w x" by blast
    show "hashtag_search w (c # d # rest)"
    proof (cases u)
      case Nil
      with uv wx show ?thesis by simp
    next
      case (Cons b u')
      with uv have "d # rest = u' @ [35, x] @ v" by simp
      with wx IH have "hashtag_search w (d # rest)" by blast
      then show ?thesis by simp
    qed
  qed
qed

lemma emoji_search_iff: "emoji_search post \<longleftrightarrow> contains_emoji post"
  by (auto simp: emoji_search_def contains_emoji_def list_ex_iff is_emoji_def)

lemma keyword_fraction_bounds:
  "kws \<noteq> [] \<Longrightarrow> 0 \<le> keyword_fraction lib post kws \<and> keyword_fraction lib post kws \<le> 1"
proof -
  assume "kws \<noteq> []"
  have "length (filter (keyword_present lib post) kws) \<le> length kws" by simp
  then have "real (length (filter (keyword_present lib post) kws)) \<le> real (length kws)"
    by simp
  then show ?thesis  by (simp add: keyword_fraction_def divide_le_eq_1)
qed

lemma evaluate_social_post_value:
  assumes "kws \<noteq> []"
  shows "evaluate_social_post lib post kws =
     Inr \<lparr>quality = 3 / 10 * keyword_fraction lib post kws
              + 3 / 10 * indicator (50 \<le> word_count post \<and> word_count post \<le> 280)
              + 2 / 10 * indicator (contains_hashtag lib post)
              + 2 / 10 * indicator (contains_emoji post),
          keyword_coverage = keyword_fraction lib post kws\<rparr>"
  using assms
  by (simp add: evaluate_social_post_def truediv_def keyword_hits_filter keyword_fraction_def
      indicator_def length_ok_def word_count_def hashtag_search_iff contains_hashtag_def
      emoji_search_iff Let_def)

lemma weighted_bounds:
  "0 \<le> k \<Longrightarrow> k \<le> 1 \<Longrightarrow>
   0 \<le> 3 / 10 * k + 3 / 10 * indicator a + 2 / 10 * indicator b + 2 / 10 * indicator c \<and>
   3 / 10 * k + 3 / 10 * indicator a + 2 / 10 * indicator b + 2 / 10 * indicator c \<le> (1::real)"
  by (simp add: indicator_def)

text \<open>The two posts, evaluated.\<close>

lemma holiday_words: "length (split holiday_post) = 12"
  by (simp add: holiday_post_def ascii_def split_def is_space_def)

lemma gift_words: "length (split gift_post) = 3"
  by (simp add: gift_post_def ascii_def split_def is_space_def)

lemma holiday_eval:
  "evaluate_social_post (ascii_lib f) holiday_post holiday_keywords = Inr \<lparr>quality = 11/25, keyword_coverage = 4/5\<rparr>"
  by (simp add: evaluate_social_post_def truediv_def length_ok_def holiday_words ascii_lib_def
        emoji_search_def is_emoji_def)
     (simp add: holiday_post_def holiday_keywords_def ascii_def ascii_lower_def ascii_word_def ascii_alnum_def is_emoji_def)

lemma gift_eval:
  "evaluate_social_post (ascii_lib f) gift_post gift_keywords = Inr \<lparr>quality = 7/10, keyword_coverage = 1\<rparr>"
  by (simp add: evaluate_social_post_def truediv_def length_ok_def gift_words ascii_lib_def
        emoji_search_def is_emoji_def)
     (simp add: gift_post_def gift_keywords_def ascii_def ascii_lower_def ascii_word_def ascii_alnum_def is_emoji_def)

text \<open>
  C2. For every post and every non-empty keyword list, \<open>evaluate_social_post\<close> returns
  quality = 0.3 * (fraction of the keywords that occur in the post, both lowercased)
  + 0.3 * (1 if the post has between 50 and 280 words) + 0.2 * (1 if it contains a
  \<^verbatim>\<open>#\<close> followed by a word character) + 0.2 * (1 if it contains a code point of the
  emoji ranges). The quality lies in [0,1], and of two evaluations that agree on the
  three boolean checks, the one with the larger keyword fraction has the larger or
  equal quality.
\<close>

theorem evaluate_social_post_quality:
  "(kws \<noteq> [] \<longrightarrow>
      (\<exists>r. evaluate_social_post lib post kws = Inr r \<and>
           quality r = 3 / 10 * keyword_fraction lib post kws
              + 3 / 10 * indicator (50 \<le> word_count post \<and> word_count post \<le> 280)
              + 2 / 10 * indicator (contains_hashtag lib post)
              + 2 / 10 * indicator (contains_emoji post) \<and>
           0 \<le> quality r \<and> quality r \<le> 1)) \<and>
   (kws \<noteq> [] \<and> kws' \<noteq> [] \<and>
    (50 \<le> word_count post \<and> word_count post \<le> 280) = (50 \<le> word_count post' \<and> word_count post' \<le> 280) \<and>
    contains_hashtag lib post = contains_hashtag lib post' \<and>
    contains_emoji post = contains_emoji post' \<and>
    keyword_fraction lib post kws \<le> keyword_fraction lib post' kws' \<longrightarrow>
      (\<exists>r r'. evaluate_social_post lib post kws = Inr r \<and>
              evaluate_social_post lib post' kws' = Inr r' \<and> quality r \<le> quality r'))"
proof (intro conjI impI)
  assume ne: "kws \<noteq> []"
  let ?q = "3 / 10 * keyword_fraction lib post kws
              + 3 / 10 * indicator (50 \<le> word_count post \<and> word_count post \<le> 280)
              + 2 / 10 * indicator (contains_hashtag lib post)
              + 2 / 10 * indicator (contains_emoji post)"
  have "0 \<le> ?q \<and> ?q \<le> 1"
    using keyword_fraction_bounds [OF ne, of lib post] by (intro weighted_bounds) simp_all
  then show "\<exists>r. evaluate_social_post lib post kws = Inr r \<and> quality r = ?q \<and>
           0 \<le> quality r \<and> quality r \<le> 1"
    by (simp add: evaluate_social_post_value [OF ne])
next
  assume h: "kws \<noteq> [] \<and> kws' \<noteq> [] \<and>
    (50 \<le> word_count post \<and> word_count post \<le> 280) = (50 \<le> word_count post' \<and> word_count post' \<le> 280) \<and>
    contains_hashtag lib post = contains_hashtag lib post' \<and>
    contains_emoji post = contains_emoji post' \<and>
    keyword_fraction lib post kws \<le> keyword_fraction lib post' kws'"
  then have ne: "kws \<noteq> []" and ne': "kws' \<noteq> []" by simp_all
  from h show "\<exists>r r'. evaluate_social_post lib post kws = Inr r \<and>
              evaluate_social_post lib post' kws' = Inr r' \<and> quality r \<le> quality r'"
    by (simp add: evaluate_social_post_value [OF ne] evaluate_social_post_value [OF ne'])
qed

theorem evaluate_social_post_quality_witness:
  "holiday_keywords \<noteq> [] \<and> gift_keywords \<noteq> [] \<and>
   keyword_fraction (ascii_lib (const_cosine 1)) holiday_post holiday_keywords
     \<le> keyword_fraction (ascii_lib (const_cosine 1)) holiday_post gift_keywords \<and>
   (\<exists>r r'. evaluate_social_post (ascii_lib (const_cosine 1)) holiday_post holiday_keywords = Inr r \<and>
           evaluate_social_post (ascii_lib (const_cosine 1)) holiday_post gift_keywords = Inr r' \<and>
           0 \<le> quality r \<and> quality r \<le> quality r' \<and> quality r' \<le> 1)"
proof -
  let ?lib = "ascii_lib (const_cosine 1)"
  have n1: "holiday_keywords \<noteq> []" by (simp add: holiday_keywords_def)
  have n2: "gift_keywords \<noteq> []" by (simp add: gift_keywords_def)
  have k1: "keyword_fraction ?lib holiday_post holiday_keywords = 4 / 5"
    by (simp add: keyword_fraction_hits ascii_lib_def holiday_post_def holiday_keywords_def text_defs)
  have k2: "keyword_fraction ?lib holiday_post gift_keywords = 1"
    by (simp add: keyword_fraction_hits ascii_lib_def holiday_post_def gift_keywords_def text_defs)
  have le: "keyword_fraction ?lib holiday_post holiday_keywords \<le> keyword_fraction ?lib holiday_post gift_keywords"
    by (simp add: k1 k2)
  from evaluate_social_post_quality [of holiday_keywords ?lib holiday_post gift_keywords holiday_post]
       evaluate_social_post_quality [of gift_keywords ?lib holiday_post gift_keywords holiday_post]
       n1 n2 le
  show ?thesis by auto
qed

text \<open>
  C8. With an empty list of expected keywords \<open>evaluate_social_post\<close> raises
  \<^verbatim>\<open>ZeroDivisionError\<close>, whatever the post: the division by the number of keywords
  has no guard.
\<close>

theorem evaluate_social_post_no_keywords:
  "evaluate_social_post lib post [] = Inl ZeroDivisionError"
  by (simp add: evaluate_social_post_def truediv_def)

theorem evaluate_social_post_no_keywords_witness:
  "evaluate_social_post (ascii_lib (const_cosine 1)) holiday_post [] = Inl ZeroDivisionError"
  using evaluate_social_post_no_keywords [of "ascii_lib (const_cosine 1)" holiday_post] by simp

lemma quality_without_length:
  assumes "\<not> length_ok post" and "evaluate_social_post lib post kws = Inr r"
  shows "quality r \<le> 7 / 10"
proof -
  from assms(2) have ne: "kws \<noteq> []"
    by (auto simp: evaluate_social_post_def truediv_def Let_def split: if_splits)
  have k: "keyword_fraction lib post kws \<le> 1" using keyword_fraction_bounds [OF ne] by simp
  from assms(1) have l: "\<not> (50 \<le> word_count post \<and> word_count post \<le> 280)"
    by (simp add: length_ok_def word_count_def)
  have "quality r = 3 / 10 * keyword_fraction lib post kws
              + 3 / 10 * indicator (50 \<le> word_count post \<and> word_count post \<le> 280)
              + 2 / 10 * indicator (contains_hashtag lib post)
              + 2 / 10 * indicator (contains_emoji post)"
    using evaluate_social_post_value [OF ne, of lib post] assms(2) by auto
  also have "\<dots> \<le> 3 / 10 * 1 + 3 / 10 * 0 + 2 / 10 * 1 + 2 / 10 * 1"
    using k l by (intro add_mono mult_left_mono) (simp_all add: indicator_def)
  finally show ?thesis by simp
qed

text \<open>
  C3, as the code has it. The post of the spec's scenario has fewer than 50 words, so
  its length check fails; and for every post whose length check fails the quality is
  at most 0.7.
\<close>

theorem short_post_quality_at_most:
  "word_count holiday_post < 50 \<and> \<not> length_ok holiday_post \<and>
   (\<not> length_ok post \<and> evaluate_social_post lib post kws = Inr r \<longrightarrow> quality r \<le> 7 / 10)"
  using quality_without_length [of post lib kws r]
  by (simp add: word_count_def length_ok_def holiday_words)

theorem short_post_quality_at_most_witness:
  "\<not> length_ok holiday_post \<and>
   evaluate_social_post (ascii_lib (const_cosine 1)) holiday_post holiday_keywords
     = Inr \<lparr>quality = 11 / 25, keyword_coverage = 4 / 5\<rparr> \<and>
   quality \<lparr>quality = 11 / 25, keyword_coverage = 4 / 5\<rparr> \<le> 7 / 10"
  using short_post_quality_at_most [of holiday_post "ascii_lib (const_cosine 1)" holiday_keywords
          "\<lparr>quality = 11 / 25, keyword_coverage = 4 / 5\<rparr>"]
        holiday_eval [of "const_cosine 1"]
  by simp

text \<open>
  C3 as the spec states it asks for a quality strictly below 0.7. A post of three
  words with every keyword, a hashtag and an emoji gets exactly 0.7.
\<close>

theorem short_post_full_credit_counterexample:
  "\<not> length_ok gift_post \<and>
   evaluate_social_post (ascii_lib (const_cosine 1)) gift_post gift_keywords
     = Inr \<lparr>quality = 7 / 10, keyword_coverage = 1\<rparr> \<and>
   \<not> quality \<lparr>quality = 7 / 10, keyword_coverage = 1\<rparr> < 7 / 10"
  using gift_eval [of "const_cosine 1"] by (simp add: length_ok_def gift_words)

subsection \<open>Summary of a run\<close>

lemma first_best_lt:
  "best_i < i \<Longrightarrow> first_best better xs i best_i best < i + length xs"
proof (induction xs arbitrary: i best_i best)
  case Nil
  then show ?case by simp
next
  case (Cons x xs)
  have a: "first_best better xs (i + 1) i x < (i + 1) + length xs"
    by (rule Cons.IH) simp
  have b: "first_best better xs (i + 1) best_i best < (i + 1) + length xs"
    by (rule Cons.IH) (use Cons.prems in simp)
  from a b show ?case by simp
qed

lemma idx_in_range:
  assumes "xs \<noteq> []"
  shows "\<exists>k. idxmax xs = Inr k \<and> k < length xs" and "\<exists>k. idxmin xs = Inr k \<and> k < length xs"
proof -
  from assms obtain x rest where xs: "xs = x # rest" by (cases xs) auto
  have "first_best better rest 1 0 x < 1 + length rest" for better
    by (rule first_best_lt) simp
  with xs show "\<exists>k. idxmax xs = Inr k \<and> k < length xs" "\<exists>k. idxmin xs = Inr k \<and> k < length xs"
    by (simp_all add: idxmax_def idxmin_def)
qed

lemma extreme_scenario_ok:
  assumes "results \<noteq> []" and "\<And>xs. xs \<noteq> [] \<Longrightarrow> \<exists>k. idx xs = Inr k \<and> k < length xs"
  shows "\<exists>label. extreme_scenario (DataFrame results) idx = Inr label"
proof -
  let ?col = "map (\<lambda>r. fst (snd r)) (rows (DataFrame results))"
  from assms(1) have "?col \<noteq> []" by (simp add: DataFrame_def)
  with assms(2) obtain k where k: "idx ?col = Inr k" "k < length ?col" by blast
  with assms(1) show ?thesis
    by (simp add: extreme_scenario_def df_empty_def DataFrame_def column_def loc_scenario_def)
qed

lemma sum_bool_values:
  "sum_list (map (bool_value \<circ> passed) results) = real (length (filter passed results))"
  by (induction results) (simp_all add: bool_value_def)

text \<open>
  C5. For every non-empty list of results, \<open>compute_overall_score\<close> returns a summary
  whose pass rate is the number of results that passed divided by the number of
  results.
\<close>

theorem pass_rate_is_fraction:
  "results \<noteq> [] \<longrightarrow>
     (\<exists>s. compute_overall_score results = Inr s \<and>
          pass_rate s = Some (real (length (filter passed results)) / real (length results)))"
proof
  assume ne: "results \<noteq> []"
  obtain best where best: "extreme_scenario (DataFrame results) idxmax = Inr best"
    using extreme_scenario_ok [OF ne, of idxmax] idx_in_range(1) by blast
  obtain worst where worst: "extreme_scenario (DataFrame results) idxmin = Inr worst"
    using extreme_scenario_ok [OF ne, of idxmin] idx_in_range(2) by blast
  have cols: "columns (DataFrame results) = [''scenario'', ''overall'', ''passed'']"
    using ne by (simp add: DataFrame_def)
  have rws: "map (\<lambda>r. snd (snd r)) (rows (DataFrame results)) = map passed results"
    by (simp add: DataFrame_def)
  show "\<exists>s. compute_overall_score results = Inr s \<and>
          pass_rate s = Some (real (length (filter passed results)) / real (length results))"
    using ne
    by (simp add: compute_overall_score_def Let_def column_def cols rws best worst mean_def
        sum_bool_values)
qed

theorem pass_rate_is_fraction_witness:
  "[failed_result (ascii ''a''), make_result (ascii ''b'')
      \<lparr>relevance = 1, personalization = 1, trend_align = 1, event_cov = 1, post_avg = 1\<rparr>] \<noteq> [] \<and>
   (\<exists>s. compute_overall_score [failed_result (ascii ''a''), make_result (ascii ''b'')
      \<lparr>relevance = 1, personalization = 1, trend_align = 1, event_cov = 1, post_avg = 1\<rparr>] = Inr s \<and>
        pass_rate s = Some (1 / 2))"
  using pass_rate_is_fraction [of "[failed_result (ascii ''a''), make_result (ascii ''b'')
      \<lparr>relevance = 1, personalization = 1, trend_align = 1, event_cov = 1, post_avg = 1\<rparr>]"]
  by (simp add: failed_result_def make_result_def overall_def)

text \<open>
  C6. On the empty list of results the frame has no column, so the lookup of the column
  \<^verbatim>\<open>passed\<close> raises \<^verbatim>\<open>KeyError\<close> before the guarded entries of the summary are
  reached: no summary with \<^verbatim>\<open>N/A\<close> is returned.
\<close>

theorem empty_results_key_error:
  "compute_overall_score [] = Inl (KeyError ''passed'')"
  by (simp add: compute_overall_score_def DataFrame_def column_def)

section \<open>Properties of the driver\<close>

lemma round_half_even_near:
  assumes "of_int n - 1 / 2 < y" and "y < of_int n + 1 / 2"
  shows "round_half_even y = n"
proof -
  consider "y < of_int n" | "of_int n \<le> y" by linarith
  then show ?thesis
  proof cases
    case 1
    with assms have f: "\<lfloor>y\<rfloor> = n - 1" by (simp add: floor_unique)
    with assms show ?thesis by (simp add: round_half_even_def Let_def)
  next
    case 2
    with assms have f: "\<lfloor>y\<rfloor> = n" by (simp add: floor_unique)
    with assms show ?thesis by (simp add: round_half_even_def Let_def)
  qed
qed

lemma round3_near:
  assumes "of_int n / 1000 - 1 / 2000 < x" and "x < of_int n / 1000 + 1 / 2000"
  shows "round3 x = of_int n / 1000"
proof -
  from assms have "of_int n - 1 / 2 < x * 1000" "x * 1000 < of_int n + 1 / 2" by simp_all
  then have "round_half_even (x * 1000) = n" by (rule round_half_even_near)
  then show ?thesis by (simp add: round3_def)
qed

lemma score_item_components:
  assumes "score_item lib it output = Inr sc"
  shows "relevance sc = cosine_text_similarity lib
           (user_input it @ ascii '' '' @ rec_text_of (get_or (RecDict None) (recommendations output))
              @ promo_text_of (get_or [] (promotions output))) (user_input it) \<and>
     regex_match_score (search lib) (join (ascii '' '') (map snd (get_or [] (social_posts output))))
           (personalization_patterns (expected it)) = Inr (personalization sc) \<and>
     regex_match_score (search lib) (join (ascii '' '') (map snd (get_or [] (social_posts output))))
           (get_or [] (trends (expected it))) = Inr (trend_align sc) \<and>
     regex_match_score (search lib) (join (ascii '' '') (map snd (get_or [] (social_posts output))))
           (get_or [] (events (expected it))) = Inr (event_cov sc) \<and>
     (\<exists>qs. post_qualities lib (map snd (get_or [] (social_posts output)))
                 (get_or [] (required_keywords (expected it))) = Inr qs \<and>
              post_avg sc = (if qs = [] then 0 else sum_list qs / real (length qs)))"
proof -
  let ?posts = "map snd (get_or [] (social_posts output))"
  let ?all = "join (ascii '' '') ?posts"
  let ?ex = "expected it"
  obtain pers where p: "regex_match_score (search lib) ?all (personalization_patterns ?ex) = Inr pers"
    using assms by (cases "regex_match_score (search lib) ?all (personalization_patterns ?ex)")
      (simp_all add: score_item_def Let_def)
  obtain trend where t: "regex_match_score (search lib) ?all (get_or [] (trends ?ex)) = Inr trend"
    using assms p by (cases "regex_match_score (search lib) ?all (get_or [] (trends ?ex))")
      (simp_all add: score_item_def Let_def)
  obtain ev where e: "regex_match_score (search lib) ?all (get_or [] (events ?ex)) = Inr ev"
    using assms p t by (cases "regex_match_score (search lib) ?all (get_or [] (events ?ex))")
      (simp_all add: score_item_def Let_def)
  obtain qs where q: "post_qualities lib ?posts (get_or [] (required_keywords ?ex)) = Inr qs"
    using assms p t e by (cases "post_qualities lib ?posts (get_or [] (required_keywords ?ex))")
      (simp_all add: score_item_def Let_def)
  from assms p t e q have "sc = \<lparr>relevance = cosine_text_similarity lib
           (user_input it @ ascii '' '' @ rec_text_of (get_or (RecDict None) (recommendations output))
              @ promo_text_of (get_or [] (promotions output))) (user_input it),
        personalization = pers, trend_align = trend, event_cov = ev,
        post_avg = (if qs = [] then 0 else sum_list qs / real (length qs))\<rparr>"
    by (simp add: score_item_def Let_def)
  with p t e q show ?thesis by simp
qed

lemma re_search_empty: "re_search [] t = Some True"
  by (cases t) (simp_all add: re_search_def group_of_def branch_of_def)

lemma empty_patterns_score:
  assumes "srch [] t = Some True" and "regex_match_score srch t [[], [], m] = Inr s"
  shows "2 / 3 \<le> s"
  using assms
  by (auto simp: regex_match_score_def truediv_def split: option.splits if_splits)

text \<open>The rounding scenario, scored in exact arithmetic; its relevance is left open.\<close>

lemmas driver_defs = score_item_def rec_text_of_def promo_text_of_def get_or_def
  personalization_patterns_def cosine_text_similarity_def const_cosine_def ascii_lib_def
  regex_match_score_def truediv_def evaluate_social_post_def length_ok_def split_def
  emoji_search_def no_criteria_def posts_only_def

lemma rounding_scores:
  "score_item (ascii_lib (const_cosine v)) rounding_item rounding_output =
     Inr \<lparr>relevance = v, personalization = 2 / 3, trend_align = 1, event_cov = 2 / 5, post_avg = 5 / 8\<rparr>"
  by (simp add: rounding_item_def rounding_output_def driver_defs regex_defs text_defs)

lemma rounding_window:
  assumes "9997 / 10000 \<le> v" and "v \<le> 1"
  shows "round3 (overall \<lparr>relevance = v, personalization = 2 / 3, trend_align = 1, event_cov = 2 / 5, post_avg = 5 / 8\<rparr>) = 75 / 100"
    and "\<not> 75 / 100 \<le> overall \<lparr>relevance = v, personalization = 2 / 3, trend_align = 1, event_cov = 2 / 5, post_avg = 5 / 8\<rparr>"
proof -
  let ?o = "overall \<lparr>relevance = v, personalization = 2 / 3, trend_align = 1, event_cov = 2 / 5, post_avg = 5 / 8\<rparr>"
  have o: "?o = v / 4 + 1199 / 2400" by (simp add: overall_def)
  from assms have lo: "of_int 750 / 1000 - 1 / 2000 < ?o" and hi: "?o < of_int 750 / 1000 + 1 / 2000"
    by (simp_all add: o)
  from round3_near [OF lo hi] show "round3 ?o = 75 / 100" by simp
  from assms show "\<not> 75 / 100 \<le> ?o" by (simp add: o)
qed

subsection \<open>Exact arithmetic as an instance\<close>

text \<open>With the identity for the rounding, the functions are those of exact arithmetic.\<close>

lemma truediv_exact: "truediv_on exact a b = truediv a b"
  by (simp add: truediv_on_def truediv_def exact_def)

lemma regex_match_score_exact:
  "regex_match_score_on exact srch t ps = regex_match_score srch t ps"
  by (simp add: regex_match_score_on_def regex_match_score_def truediv_exact cong: sum.case_cong)

lemma evaluate_social_post_exact:
  "evaluate_social_post_on exact lib post kws = evaluate_social_post lib post kws"
proof -
  have r: "rnd exact x = x" for x by (simp add: exact_def)
  show ?thesis
    by (simp add: evaluate_social_post_on_def evaluate_social_post_def truediv_exact
        fadd_def fmul_def r Let_def cong: sum.case_cong)
qed

lemma post_qualities_exact:
  "post_qualities_on exact lib posts kws = post_qualities lib posts kws"
  by (induction posts) (simp_all add: evaluate_social_post_exact cong: sum.case_cong)

lemma score_item_exact: "score_item_on exact lib it output = score_item lib it output"
proof -
  have r: "rnd exact x = x" for x by (simp add: exact_def)
  have s: "fsum exact qs = sum_list qs" for qs by (simp add: exact_def)
  show ?thesis
    by (simp add: score_item_on_def score_item_def regex_match_score_exact post_qualities_exact
        r s Let_def cong: sum.case_cong if_cong)
qed

lemma overall_exact: "overall_on exact sc = overall sc"
  by (simp add: overall_on_def overall_def fadd_def fmul_def exact_def)

lemma make_result_exact: "make_result_on exact input sc = make_result input sc"
proof -
  have r: "rnd exact x = x" for x by (simp add: exact_def)
  show ?thesis by (simp add: make_result_on_def make_result_def overall_exact r)
qed

lemma evaluate_item_exact: "evaluate_item_on exact lib it outcome = evaluate_item lib it outcome"
  by (simp add: evaluate_item_on_def evaluate_item_def score_item_exact make_result_exact
      cong: sum.case_cong option.case_cong)

subsection \<open>Rounding to a double\<close>

lemma fl_up_numeral:
  "fl_up (numeral k) x =
     (if 2 ^ 52 \<le> x then of_int (round_half_even x) else fl_up (pred_numeral k) (2 * x) / 2)"
  by (simp add: numeral_eq_Suc)

lemmas fl_eval = fl_def fl_mag_def fl_up_numeral round_half_even_def

lemma fl_values:
  "fl 0 = 0" "fl 1 = 1" "fl (1 / 2) = 1 / 2" "fl (1 / 4) = 1 / 4" "fl (3 / 4) = 3 / 4"
  "fl (1 / 5) = 3602879701896397 / 18014398509481984"
  "fl (3 / 20) = 5404319552844595 / 36028797018963968"
  "fl (3 / 10) = 5404319552844595 / 18014398509481984"
  "fl (2 / 3) = 6004799503160661 / 9007199254740992"
  by (simp_all add: fl_eval)

subsection \<open>The scenarios in double arithmetic\<close>

lemmas driver_on_defs = score_item_on_def rec_text_of_def promo_text_of_def get_or_def
  personalization_patterns_def cosine_text_similarity_def const_cosine_def empty_vocabulary_def
  ascii_lib_def regex_match_score_on_def truediv_on_def evaluate_social_post_on_def
  length_ok_def split_def emoji_search_def no_criteria_def posts_only_def
  fadd_def fmul_def binary64_def seq_sum_def

lemma exact_threshold_scores:
  "score_item_on (binary64 seq_sum) (ascii_lib empty_vocabulary) exact_threshold_item
     exact_threshold_output =
     Inr \<lparr>relevance = 0, personalization = 1, trend_align = 1, event_cov = 1, post_avg = 1\<rparr>"
  by (simp add: exact_threshold_item_def exact_threshold_output_def driver_on_defs regex_defs
      text_defs fl_values)
     (simp add: fl_eval)

lemma below_threshold_scores:
  "score_item_on (binary64 seq_sum) (ascii_lib (const_cosine 1)) below_threshold_item
     below_threshold_output =
     Inr \<lparr>relevance = 1, personalization = 1, trend_align = 1, event_cov = 1 / 2,
          post_avg = 5404319552844595 / 18014398509481984\<rparr>"
  by (simp add: below_threshold_item_def below_threshold_output_def driver_on_defs regex_defs
      text_defs fl_values)
     (simp add: fl_eval)

lemma rounding_scores_on_doubles:
  "score_item_on (binary64 seq_sum) (ascii_lib (const_cosine 1)) rounding_item rounding_output =
     Inr \<lparr>relevance = 1, personalization = 6004799503160661 / 9007199254740992,
          trend_align = 1, event_cov = 3602879701896397 / 9007199254740992, post_avg = 5 / 8\<rparr>"
  by (simp add: rounding_item_def rounding_output_def driver_on_defs regex_defs
      text_defs fl_values)
     (simp add: fl_eval)

lemma exact_threshold_overall:
  "overall_on (binary64 seq_sum)
     \<lparr>relevance = 0, personalization = 1, trend_align = 1, event_cov = 1, post_avg = 1\<rparr> = 75 / 100"
  by (simp add: overall_on_def fadd_def fmul_def binary64_def fl_values) (simp add: fl_eval)

lemma below_threshold_overall:
  "overall_on (binary64 seq_sum)
     \<lparr>relevance = 1, personalization = 1, trend_align = 1, event_cov = 1 / 2,
      post_avg = 5404319552844595 / 18014398509481984\<rparr>
     = 6755399441055743 / 9007199254740992"
  by (simp add: overall_on_def fadd_def fmul_def binary64_def fl_values) (simp add: fl_eval)

subsection \<open>Overall score and threshold\<close>

lemma score_item_on_components:
  assumes "score_item_on ar lib it output = Inr sc"
  shows "relevance sc = cosine_text_similarity lib
           (user_input it @ ascii '' '' @ rec_text_of (get_or (RecDict None) (recommendations output))
              @ promo_text_of (get_or [] (promotions output))) (user_input it) \<and>
     regex_match_score_on ar (search lib) (join (ascii '' '') (map snd (get_or [] (social_posts output))))
           (personalization_patterns (expected it)) = Inr (personalization sc) \<and>
     regex_match_score_on ar (search lib) (join (ascii '' '') (map snd (get_or [] (social_posts output))))
           (get_or [] (trends (expected it))) = Inr (trend_align sc) \<and>
     regex_match_score_on ar (search lib) (join (ascii '' '') (map snd (get_or [] (social_posts output))))
           (get_or [] (events (expected it))) = Inr (event_cov sc) \<and>
     (\<exists>qs. post_qualities_on ar lib (map snd (get_or [] (social_posts output)))
                 (get_or [] (required_keywords (expected it))) = Inr qs \<and>
              post_avg sc = (if qs = [] then 0 else rnd ar (fsum ar qs / real (length qs))))"
proof -
  let ?posts = "map snd (get_or [] (social_posts output))"
  let ?all = "join (ascii '' '') ?posts"
  let ?ex = "expected it"
  obtain pers where p: "regex_match_score_on ar (search lib) ?all (personalization_patterns ?ex) = Inr pers"
    using assms by (cases "regex_match_score_on ar (search lib) ?all (personalization_patterns ?ex)")
      (simp_all add: score_item_on_def Let_def)
  obtain trend where t: "regex_match_score_on ar (search lib) ?all (get_or [] (trends ?ex)) = Inr trend"
    using assms p by (cases "regex_match_score_on ar (search lib) ?all (get_or [] (trends ?ex))")
      (simp_all add: score_item_on_def Let_def)
  obtain ev where e: "regex_match_score_on ar (search lib) ?all (get_or [] (events ?ex)) = Inr ev"
    using assms p t by (cases "regex_match_score_on ar (search lib) ?all (get_or [] (events ?ex))")
      (simp_all add: score_item_on_def Let_def)
  obtain qs where q: "post_qualities_on ar lib ?posts (get_or [] (required_keywords ?ex)) = Inr qs"
    using assms p t e by (cases "post_qualities_on ar lib ?posts (get_or [] (required_keywords ?ex))")
      (simp_all add: score_item_on_def Let_def)
  from assms p t e q have "sc = \<lparr>relevance = cosine_text_similarity lib
           (user_input it @ ascii '' '' @ rec_text_of (get_or (RecDict None) (recommendations output))
              @ promo_text_of (get_or [] (promotions output))) (user_input it),
        personalization = pers, trend_align = trend, event_cov = ev,
        post_avg = (if qs = [] then 0 else rnd ar (fsum ar qs / real (length qs)))\<rparr>"
    by (simp add: score_item_on_def Let_def)
  with p t e q show ?thesis by simp
qed

lemma overall_on_doubles:
  "overall_on (binary64 s) sc =
     fl (fl (fl (fl (fl (fl (25 / 100) * relevance sc) + fl (fl (20 / 100) * personalization sc))
                  + fl (fl (15 / 100) * trend_align sc))
              + fl (fl (15 / 100) * event_cov sc))
         + fl (fl (25 / 100) * post_avg sc))"
  by (simp add: overall_on_def fadd_def fmul_def binary64_def)

lemma passed_on_doubles:
  "passed (make_result_on (binary64 s) input sc) \<longleftrightarrow> 75 / 100 \<le> overall_on (binary64 s) sc"
  by (simp add: make_result_on_def binary64_def fl_values)

lemma overall_of_zero_scores:
  "overall_on (binary64 s)
     \<lparr>relevance = 0, personalization = 0, trend_align = 0, event_cov = 0, post_avg = 0\<rparr> = 0"
  by (simp add: overall_on_def fadd_def fmul_def binary64_def fl_values)

text \<open>
  C1. In the arithmetic of the driver, IEEE doubles: for every scenario the driver scores,
  the five scores are the similarity of the request with the generated text, the three
  regex coverages and the mean post quality; the overall score (the driver's
  \<^verbatim>\<open>overall\<close>, before it is rounded for the record) is the value of
  0.25 * relevance + 0.20 * personalization + 0.15 * trend alignment + 0.15 * event
  coverage + 0.25 * mean post quality, each literal, product and sum rounded to a double,
  and the result's \<open>passed\<close> flag holds exactly when this overall score is at least
  0.75; at exactly 0.75 it holds. A scenario whose agent call fails is recorded with all
  scores 0 and \<open>passed\<close> false, which fits the same formula and threshold.
\<close>

theorem overall_weighted_sum_and_threshold:
  "(score_item_on (binary64 s) lib it output = Inr sc \<longrightarrow>
      relevance sc = cosine_text_similarity lib
           (user_input it @ ascii '' '' @ rec_text_of (get_or (RecDict None) (recommendations output))
              @ promo_text_of (get_or [] (promotions output))) (user_input it) \<and>
      regex_match_score_on (binary64 s) (search lib)
           (join (ascii '' '') (map snd (get_or [] (social_posts output))))
           (personalization_patterns (expected it)) = Inr (personalization sc) \<and>
      regex_match_score_on (binary64 s) (search lib)
           (join (ascii '' '') (map snd (get_or [] (social_posts output))))
           (get_or [] (trends (expected it))) = Inr (trend_align sc) \<and>
      regex_match_score_on (binary64 s) (search lib)
           (join (ascii '' '') (map snd (get_or [] (social_posts output))))
           (get_or [] (events (expected it))) = Inr (event_cov sc) \<and>
      (\<exists>qs. post_qualities_on (binary64 s) lib (map snd (get_or [] (social_posts output)))
                 (get_or [] (required_keywords (expected it))) = Inr qs \<and>
              post_avg sc = (if qs = [] then 0 else fl (s qs / real (length qs)))) \<and>
      overall_on (binary64 s) sc =
        fl (fl (fl (fl (fl (fl (25 / 100) * relevance sc) + fl (fl (20 / 100) * personalization sc))
                     + fl (fl (15 / 100) * trend_align sc))
                 + fl (fl (15 / 100) * event_cov sc))
            + fl (fl (25 / 100) * post_avg sc)) \<and>
      (\<exists>r. evaluate_item_on (binary64 s) lib it (Some output) = Inr r \<and>
           (passed r \<longleftrightarrow> 75 / 100 \<le> overall_on (binary64 s) sc) \<and>
           (overall_on (binary64 s) sc = 75 / 100 \<longrightarrow> passed r))) \<and>
   (\<exists>r. evaluate_item_on (binary64 s) lib it None = Inr r \<and>
        overall_score r =
          overall_on (binary64 s)
            \<lparr>relevance = relevance_score r, personalization = personalization_score r,
             trend_align = trend_alignment r, event_cov = event_coverage r,
             post_avg = post_quality_avg r\<rparr> \<and>
        (passed r \<longleftrightarrow> 75 / 100 \<le> overall_score r))"
proof (intro conjI impI)
  assume sc: "score_item_on (binary64 s) lib it output = Inr sc"
  have b: "rnd (binary64 s) = fl" "fsum (binary64 s) = s" by (simp_all add: binary64_def)
  note comp = score_item_on_components [OF sc, unfolded b]
  from comp show "relevance sc = cosine_text_similarity lib
           (user_input it @ ascii '' '' @ rec_text_of (get_or (RecDict None) (recommendations output))
              @ promo_text_of (get_or [] (promotions output))) (user_input it)" by blast
  from comp show "regex_match_score_on (binary64 s) (search lib)
           (join (ascii '' '') (map snd (get_or [] (social_posts output))))
           (personalization_patterns (expected it)) = Inr (personalization sc)" by blast
  from comp show "regex_match_score_on (binary64 s) (search lib)
           (join (ascii '' '') (map snd (get_or [] (social_posts output))))
           (get_or [] (trends (expected it))) = Inr (trend_align sc)" by blast
  from comp show "regex_match_score_on (binary64 s) (search lib)
           (join (ascii '' '') (map snd (get_or [] (social_posts output))))
           (get_or [] (events (expected it))) = Inr (event_cov sc)" by blast
  from comp show "\<exists>qs. post_qualities_on (binary64 s) lib (map snd (get_or [] (social_posts output)))
                 (get_or [] (required_keywords (expected it))) = Inr qs \<and>
              post_avg sc = (if qs = [] then 0 else fl (s qs / real (length qs)))" by blast
  show "overall_on (binary64 s) sc =
        fl (fl (fl (fl (fl (fl (25 / 100) * relevance sc) + fl (fl (20 / 100) * personalization sc))
                     + fl (fl (15 / 100) * trend_align sc))
                 + fl (fl (15 / 100) * event_cov sc))
            + fl (fl (25 / 100) * post_avg sc))"
    by (rule overall_on_doubles)
  show "\<exists>r. evaluate_item_on (binary64 s) lib it (Some output) = Inr r \<and>
           (passed r \<longleftrightarrow> 75 / 100 \<le> overall_on (binary64 s) sc) \<and>
           (overall_on (binary64 s) sc = 75 / 100 \<longrightarrow> passed r)"
    using sc passed_on_doubles [of s "user_input it" sc] by (simp add: evaluate_item_on_def)
next
  show "\<exists>r. evaluate_item_on (binary64 s) lib it None = Inr r \<and>
        overall_score r =
          overall_on (binary64 s)
            \<lparr>relevance = relevance_score r, personalization = personalization_score r,
             trend_align = trend_alignment r, event_cov = event_coverage r,
             post_avg = post_quality_avg r\<rparr> \<and>
        (passed r \<longleftrightarrow> 75 / 100 \<le> overall_score r)"
    by (simp add: evaluate_item_on_def failed_result_def overall_of_zero_scores)
qed

theorem overall_weighted_sum_and_threshold_witness:
  "score_item_on (binary64 seq_sum) (ascii_lib empty_vocabulary) exact_threshold_item
     exact_threshold_output =
     Inr \<lparr>relevance = 0, personalization = 1, trend_align = 1, event_cov = 1, post_avg = 1\<rparr> \<and>
   overall_on (binary64 seq_sum)
     \<lparr>relevance = 0, personalization = 1, trend_align = 1, event_cov = 1, post_avg = 1\<rparr> = 75 / 100 \<and>
   (\<exists>r. evaluate_item_on (binary64 seq_sum) (ascii_lib empty_vocabulary) exact_threshold_item
          (Some exact_threshold_output) = Inr r \<and> passed r)"
  using overall_weighted_sum_and_threshold [of seq_sum "ascii_lib empty_vocabulary"
          exact_threshold_item exact_threshold_output
          "\<lparr>relevance = 0, personalization = 1, trend_align = 1, event_cov = 1, post_avg = 1\<rparr>"]
        exact_threshold_scores exact_threshold_overall
  by simp

text \<open>
  One unit in the last place below the threshold: the exact weighted sum of the scores
  1, 1, 1, 0.5 and 0.3 is 0.75, the doubles add up to \<open>0.75 - 2^-53\<close>, which
  Python prints as \<^verbatim>\<open>0.7499999999999999\<close>. The scenario does not pass, and its
  record holds the rounded overall score 0.75.
\<close>

lemma below_threshold_not_passed:
  "\<exists>r. evaluate_item_on (binary64 seq_sum) (ascii_lib (const_cosine 1)) below_threshold_item
          (Some below_threshold_output) = Inr r \<and> \<not> passed r \<and> overall_score r = 75 / 100"
proof -
  have r: "round3 (6755399441055743 / 9007199254740992) = 3 / 4"
    by (simp add: round3_def round_half_even_def)
  show ?thesis
    by (simp add: evaluate_item_on_def below_threshold_scores make_result_on_def
        below_threshold_overall r)
       (simp add: binary64_def fl_values)
qed

subsection \<open>The empty pattern\<close>

lemma empty_patterns_score_on_doubles:
  assumes "srch [] t = Some True"
    and "regex_match_score_on (binary64 s) srch t [[], [], m] = Inr x"
  shows "fl (2 / 3) \<le> x"
  using assms
  by (auto simp: regex_match_score_on_def truediv_on_def binary64_def fl_values
      split: option.splits if_splits)

text \<open>
  C9. A search that finds the empty pattern in a text, as \<^verbatim>\<open>re.search\<close> does in
  every text (the empty pattern matches at position 0; \<open>re_search_empty\<close> shows it
  for the reference instance), gives \<open>regex_match_score\<close> of the text and the
  one-element list of the empty pattern the value 1. Hence a scenario whose criteria have
  neither \<^verbatim>\<open>age_group\<close> nor \<^verbatim>\<open>gender\<close> gets a personalization score of at least
  2/3, whatever the posts say and whatever the market pattern is: in exact arithmetic,
  and in doubles, where 2/3 is the double nearest to it.
\<close>

theorem empty_pattern_always_matches:
  "(srch [] t = Some True \<longrightarrow> regex_match_score srch t [[]] = Inr 1) \<and>
   (search lib [] (join (ascii '' '') (map snd (get_or [] (social_posts output)))) = Some True \<and>
    age_group (expected it) = None \<and> gender (expected it) = None \<and>
    score_item lib it output = Inr sc \<longrightarrow> 2 / 3 \<le> personalization sc) \<and>
   (search lib [] (join (ascii '' '') (map snd (get_or [] (social_posts output)))) = Some True \<and>
    age_group (expected it) = None \<and> gender (expected it) = None \<and>
    score_item_on (binary64 s) lib it output = Inr sc' \<longrightarrow> fl (2 / 3) \<le> personalization sc')"
proof (intro conjI impI)
  assume "srch [] t = Some True"
  then show "regex_match_score srch t [[]] = Inr 1"
    by (simp add: regex_match_score_def truediv_def)
next
  let ?all = "join (ascii '' '') (map snd (get_or [] (social_posts output)))"
  assume h: "search lib [] ?all = Some True \<and>
    age_group (expected it) = None \<and> gender (expected it) = None \<and>
    score_item lib it output = Inr sc"
  then have sc: "score_item lib it output = Inr sc" and e: "search lib [] ?all = Some True"
    by simp_all
  from score_item_components [OF sc] h
  have "regex_match_score (search lib) ?all
      [[], [], get_or (ascii ''Singapore|US'') (market (expected it))] = Inr (personalization sc)"
    by (simp add: personalization_patterns_def get_or_def)
  with e show "2 / 3 \<le> personalization sc"
    by (rule empty_patterns_score)
next
  let ?all = "join (ascii '' '') (map snd (get_or [] (social_posts output)))"
  assume h: "search lib [] ?all = Some True \<and>
    age_group (expected it) = None \<and> gender (expected it) = None \<and>
    score_item_on (binary64 s) lib it output = Inr sc'"
  then have sc: "score_item_on (binary64 s) lib it output = Inr sc'"
    and e: "search lib [] ?all = Some True"
    by simp_all
  from score_item_on_components [OF sc] h
  have "regex_match_score_on (binary64 s) (search lib) ?all
      [[], [], get_or (ascii ''Singapore|US'') (market (expected it))] = Inr (personalization sc')"
    by (simp add: personalization_patterns_def get_or_def)
  with e show "fl (2 / 3) \<le> personalization sc'"
    by (rule empty_patterns_score_on_doubles)
qed

theorem empty_pattern_always_matches_witness:
  "re_search [] (ascii ''Floral perfume gift for Christmas and New Year holiday #sale '' @ [0x1F381])
     = Some True \<and>
   regex_match_score re_search
     (ascii ''Floral perfume gift for Christmas and New Year holiday #sale '' @ [0x1F381]) [[]] = Inr 1 \<and>
   age_group (expected rounding_item) = None \<and> gender (expected rounding_item) = None \<and>
   score_item (ascii_lib (const_cosine 1)) rounding_item rounding_output =
     Inr \<lparr>relevance = 1, personalization = 2 / 3, trend_align = 1, event_cov = 2 / 5, post_avg = 5 / 8\<rparr> \<and>
   score_item_on (binary64 seq_sum) (ascii_lib (const_cosine 1)) rounding_item rounding_output =
     Inr \<lparr>relevance = 1, personalization = 6004799503160661 / 9007199254740992,
          trend_align = 1, event_cov = 3602879701896397 / 9007199254740992, post_avg = 5 / 8\<rparr> \<and>
   (2::real) / 3 \<le> 2 / 3 \<and> fl (2 / 3) \<le> 6004799503160661 / 9007199254740992"
proof -
  let ?t = "ascii ''Floral perfume gift for Christmas and New Year holiday #sale '' @ [0x1F381]"
  let ?lib = "ascii_lib (const_cosine 1)"
  have e: "re_search [] ?t = Some True" by (rule re_search_empty)
  have j: "join (ascii '' '') (map snd (get_or [] (social_posts rounding_output))) = ?t"
    by (simp add: rounding_output_def posts_only_def get_or_def)
  have s: "search ?lib = re_search" by (simp add: ascii_lib_def)
  have a: "age_group (expected rounding_item) = None \<and> gender (expected rounding_item) = None"
    by (simp add: rounding_item_def no_criteria_def)
  from empty_pattern_always_matches [of re_search ?t ?lib rounding_output rounding_item
     "\<lparr>relevance = 1, personalization = 2 / 3, trend_align = 1, event_cov = 2 / 5, post_avg = 5 / 8\<rparr>"
     seq_sum
     "\<lparr>relevance = 1, personalization = 6004799503160661 / 9007199254740992,
          trend_align = 1, event_cov = 3602879701896397 / 9007199254740992, post_avg = 5 / 8\<rparr>"]
     e j s a rounding_scores [of 1] rounding_scores_on_doubles
  show ?thesis by simp
qed

subsection \<open>Rounded record\<close>

text \<open>The record of the same scenario in double arithmetic, with relevance 1.0.\<close>

lemma rounding_record_on_doubles:
  "\<exists>r. evaluate_item_on (binary64 seq_sum) (ascii_lib (const_cosine 1)) rounding_item
          (Some rounding_output) = Inr r \<and> overall_score r = 75 / 100 \<and> \<not> passed r"
proof -
  have o: "overall_on (binary64 seq_sum)
     \<lparr>relevance = 1, personalization = 6004799503160661 / 9007199254740992,
      trend_align = 1, event_cov = 3602879701896397 / 9007199254740992, post_avg = 5 / 8\<rparr>
     = 1687911610341567 / 2251799813685248"
    by (simp add: overall_on_def fadd_def fmul_def binary64_def fl_values) (simp add: fl_eval)
  have r: "round3 (1687911610341567 / 2251799813685248) = 3 / 4"
    by (simp add: round3_def round_half_even_def)
  show ?thesis
    by (simp add: evaluate_item_on_def rounding_scores_on_doubles make_result_on_def o r)
       (simp add: binary64_def fl_values)
qed

text \<open>
  C10. The record holds the five scores and the overall score rounded to three
  decimals, and \<open>passed\<close> compares the overall score before rounding with 0.75. So a
  record can hold \<open>overall_score = 0.75\<close> with \<open>passed\<close> false: the scenario
  \<open>rounding_item\<close> does, for every relevance between 0.9997 and 1 (the request is
  compared with itself followed by a space). The same holds in double arithmetic, where
  each rounded field is the double nearest to the decimal: the record of the scenario
  with relevance 1.0 holds \<open>overall_score = 0.75\<close> and \<open>passed\<close> false.
\<close>

theorem rounded_overall_with_failed_flag:
  "(score_item lib it output = Inr sc \<longrightarrow>
      evaluate_item lib it (Some output) =
        Inr \<lparr>scenario = take 50 (user_input it),
             relevance_score = round3 (relevance sc),
             personalization_score = round3 (personalization sc),
             trend_alignment = round3 (trend_align sc),
             event_coverage = round3 (event_cov sc),
             post_quality_avg = round3 (post_avg sc),
             overall_score = round3 (overall sc),
             passed = (75 / 100 \<le> overall sc)\<rparr>) \<and>
   (9997 / 10000 \<le> v \<and> v \<le> 1 \<longrightarrow>
      (\<exists>r. evaluate_item (ascii_lib (const_cosine v)) rounding_item (Some rounding_output) = Inr r \<and>
           overall_score r = 75 / 100 \<and> \<not> passed r)) \<and>
   (score_item_on (binary64 s) lib it output = Inr sc' \<longrightarrow>
      evaluate_item_on (binary64 s) lib it (Some output) =
        Inr \<lparr>scenario = take 50 (user_input it),
             relevance_score = fl (round3 (relevance sc')),
             personalization_score = fl (round3 (personalization sc')),
             trend_alignment = fl (round3 (trend_align sc')),
             event_coverage = fl (round3 (event_cov sc')),
             post_quality_avg = fl (round3 (post_avg sc')),
             overall_score = fl (round3 (overall_on (binary64 s) sc')),
             passed = (75 / 100 \<le> overall_on (binary64 s) sc')\<rparr>) \<and>
   (\<exists>r. evaluate_item_on (binary64 seq_sum) (ascii_lib (const_cosine 1)) rounding_item
          (Some rounding_output) = Inr r \<and> overall_score r = 75 / 100 \<and> \<not> passed r)"
proof (intro conjI impI)
  assume "score_item lib it output = Inr sc"
  then show "evaluate_item lib it (Some output) =
        Inr \<lparr>scenario = take 50 (user_input it),
             relevance_score = round3 (relevance sc),
             personalization_score = round3 (personalization sc),
             trend_alignment = round3 (trend_align sc),
             event_coverage = round3 (event_cov sc),
             post_quality_avg = round3 (post_avg sc),
             overall_score = round3 (overall sc),
             passed = (75 / 100 \<le> overall sc)\<rparr>"
    by (simp add: evaluate_item_def make_result_def)
next
  assume v: "9997 / 10000 \<le> v \<and> v \<le> 1"
  then have a: "9997 / 10000 \<le> v" and b: "v \<le> 1" by simp_all
  show "\<exists>r. evaluate_item (ascii_lib (const_cosine v)) rounding_item (Some rounding_output) = Inr r \<and>
           overall_score r = 75 / 100 \<and> \<not> passed r"
    using rounding_window [OF a b]
    by (simp add: evaluate_item_def rounding_scores make_result_def)
next
  assume "score_item_on (binary64 s) lib it output = Inr sc'"
  then show "evaluate_item_on (binary64 s) lib it (Some output) =
        Inr \<lparr>scenario = take 50 (user_input it),
             relevance_score = fl (round3 (relevance sc')),
             personalization_score = fl (round3 (personalization sc')),
             trend_alignment = fl (round3 (trend_align sc')),
             event_coverage = fl (round3 (event_cov sc')),
             post_quality_avg = fl (round3 (post_avg sc')),
             overall_score = fl (round3 (overall_on (binary64 s) sc')),
             passed = (75 / 100 \<le> overall_on (binary64 s) sc')\<rparr>"
    using passed_on_doubles [of s "user_input it" sc']
    by (simp add: evaluate_item_on_def make_result_on_def) (simp add: binary64_def)
next
  show "\<exists>r. evaluate_item_on (binary64 seq_sum) (ascii_lib (const_cosine 1)) rounding_item
          (Some rounding_output) = Inr r \<and> overall_score r = 75 / 100 \<and> \<not> passed r"
    by (rule rounding_record_on_doubles)
qed

theorem rounded_overall_with_failed_flag_witness:
  "score_item (ascii_lib (const_cosine 1)) rounding_item rounding_output =
     Inr \<lparr>relevance = 1, personalization = 2 / 3, trend_align = 1, event_cov = 2 / 5, post_avg = 5 / 8\<rparr> \<and>
   (9997 / 10000 \<le> (1::real) \<and> (1::real) \<le> 1) \<and>
   evaluate_item (ascii_lib (const_cosine 1)) rounding_item (Some rounding_output) =
     Inr \<lparr>scenario = ascii ''Perfume promotion for Christmas'',
          relevance_score = 1, personalization_score = 667 / 1000, trend_alignment = 1,
          event_coverage = 2 / 5, post_quality_avg = 5 / 8, overall_score = 75 / 100,
          passed = False\<rparr>"
proof -
  let ?sc = "\<lparr>relevance = 1, personalization = 2 / 3, trend_align = 1, event_cov = 2 / 5, post_avg = 5 / 8\<rparr>"
  have r1: "round3 (2 / 3) = 667 / 1000" "round3 1 = 1" "round3 (2 / 5) = 2 / 5" "round3 (5 / 8) = 5 / 8"
    by (simp_all add: round3_def round_half_even_def)
  have u: "take 50 (user_input rounding_item) = ascii ''Perfume promotion for Christmas''"
    by (simp add: rounding_item_def ascii_def)
  from rounded_overall_with_failed_flag [of "ascii_lib (const_cosine 1)" rounding_item rounding_output ?sc 1]
       rounding_scores [of 1] rounding_window [of 1]
  show ?thesis by (auto simp: r1 u)
qed

end
